theory Spec2Isabelle
  imports Complex_Main
begin

section \<open>Python values and strings\<close>

text \<open>
  The pre-call pipeline of \<^verbatim>\<open>litellm-proxy/complexity_router.py\<close>, embedded function by function.
  A Python \<^verbatim>\<open>str\<close> is a \<^typ>\<open>string\<close> with one \<^typ>\<open>char\<close> per code point (text in Latin-1);
  a dictionary with values of several types is a map into \<open>pyval\<close>.
\<close>

datatype pyval = PNone | PBool bool | PInt int | PStr string

text \<open>Python truthiness, as used by \<^verbatim>\<open>if x\<close>, \<^verbatim>\<open>x or y\<close> and \<^verbatim>\<open>not x\<close>.\<close>

fun truthy :: "pyval \<Rightarrow> bool" where
  "truthy PNone = False"
| "truthy (PBool b) = b"
| "truthy (PInt i) = (i \<noteq> 0)"
| "truthy (PStr s) = (s \<noteq> [])"

definition get_truthy :: "(string \<rightharpoonup> pyval) \<Rightarrow> string \<Rightarrow> bool" where
  "get_truthy m k = (case m k of None \<Rightarrow> False | Some v \<Rightarrow> truthy v)"

definition digit_char :: "nat \<Rightarrow> char" where
  "digit_char d = ''0123456789'' ! d"

fun show_nat :: "nat \<Rightarrow> string" where
  "show_nat n = (if n < 10 then [digit_char n] else show_nat (n div 10) @ [digit_char (n mod 10)])"

declare show_nat.simps [simp del]

definition show_int :: "int \<Rightarrow> string" where
  "show_int i = (if i < 0 then ''-'' @ show_nat (nat (- i)) else show_nat (nat i))"

text \<open>\<^verbatim>\<open>str(v)\<close>.\<close>

fun py_str :: "pyval \<Rightarrow> string" where
  "py_str PNone = ''None''"
| "py_str (PBool b) = (if b then ''True'' else ''False'')"
| "py_str (PInt i) = show_int i"
| "py_str (PStr s) = s"

definition nl :: string where
  "nl = [CHR 0x0A]"

text \<open>
  \<^verbatim>\<open>str.lower()\<close> and \<^verbatim>\<open>str.upper()\<close> on Latin-1 text: the letters A-Z, and those from 0xC0 to
  0xDE but 0xD7, against the letters 32 places up.
\<close>

definition upper_chars :: string where
  "upper_chars = ''ABCDEFGHIJKLMNOPQRSTUVWXYZ'' @
     [CHR 0xC0, CHR 0xC1, CHR 0xC2, CHR 0xC3, CHR 0xC4, CHR 0xC5, CHR 0xC6, CHR 0xC7, CHR 0xC8, CHR 0xC9, CHR 0xCA, CHR 0xCB, CHR 0xCC,
      CHR 0xCD, CHR 0xCE, CHR 0xCF, CHR 0xD0, CHR 0xD1, CHR 0xD2, CHR 0xD3, CHR 0xD4, CHR 0xD5, CHR 0xD6, CHR 0xD8, CHR 0xD9,
      CHR 0xDA, CHR 0xDB, CHR 0xDC, CHR 0xDD, CHR 0xDE]"

definition lower_chars :: string where
  "lower_chars = ''abcdefghijklmnopqrstuvwxyz'' @
     [CHR 0xE0, CHR 0xE1, CHR 0xE2, CHR 0xE3, CHR 0xE4, CHR 0xE5, CHR 0xE6, CHR 0xE7, CHR 0xE8, CHR 0xE9, CHR 0xEA, CHR 0xEB, CHR 0xEC,
      CHR 0xED, CHR 0xEE, CHR 0xEF, CHR 0xF0, CHR 0xF1, CHR 0xF2, CHR 0xF3, CHR 0xF4, CHR 0xF5, CHR 0xF6, CHR 0xF8, CHR 0xF9,
      CHR 0xFA, CHR 0xFB, CHR 0xFC, CHR 0xFD, CHR 0xFE]"

definition lower_char :: "char \<Rightarrow> char" where
  "lower_char c = (case map_of (zip upper_chars lower_chars) c of Some l \<Rightarrow> l | None \<Rightarrow> c)"

definition upper_char :: "char \<Rightarrow> char" where
  "upper_char c = (case map_of (zip lower_chars upper_chars) c of Some u \<Rightarrow> u | None \<Rightarrow> c)"

definition lower :: "string \<Rightarrow> string" where
  "lower s = map lower_char s"

definition upper :: "string \<Rightarrow> string" where
  "upper s = map upper_char s"

text \<open>\<^verbatim>\<open>str.isspace()\<close> on a code point below 256; \<^verbatim>\<open>\s\<close> of \<^verbatim>\<open>re\<close> is the same class.\<close>

definition space_chars :: string where
  "space_chars =
     [CHR 0x09, CHR 0x0A, CHR 0x0B, CHR 0x0C, CHR 0x0D, CHR 0x1C, CHR 0x1D, CHR 0x1E, CHR 0x1F,
      CHR 0x20, CHR 0x85, CHR 0xA0]"

definition is_space :: "char \<Rightarrow> bool" where
  "is_space c = (c \<in> set space_chars)"

text \<open>\<^verbatim>\<open>str.strip()\<close>: leading and trailing whitespace only.\<close>

definition strip :: "string \<Rightarrow> string" where
  "strip s = rev (dropWhile is_space (rev (dropWhile is_space s)))"

text \<open>\<^verbatim>\<open>s.startswith(p)\<close> and \<^verbatim>\<open>sub in s\<close>.\<close>

fun startswith :: "string \<Rightarrow> string \<Rightarrow> bool" where
  "startswith s [] = True"
| "startswith [] (p # ps) = False"
| "startswith (c # cs) (p # ps) = (c = p \<and> startswith cs ps)"

fun contains :: "string \<Rightarrow> string \<Rightarrow> bool" where
  "contains sub [] = (sub = [])"
| "contains sub (c # cs) = (startswith (c # cs) sub \<or> contains sub cs)"

section \<open>Requests\<close>

text \<open>
  A content block of a message: a dict of type \<^verbatim>\<open>text\<close> (its \<^verbatim>\<open>text\<close>), a dict of type
  \<^verbatim>\<open>tool_result\<close> (the \<^verbatim>\<open>str\<close> of its \<^verbatim>\<open>content\<close>), any other dict and any non-dict (each
  with its \<^verbatim>\<open>str\<close>).
\<close>

datatype block = TextBlock string | ToolResult string | OtherDict string | NonDict string

text \<open>The \<^verbatim>\<open>content\<close> of a message: a string, a list of blocks, \<^verbatim>\<open>None\<close>, or anything else with its \<^verbatim>\<open>str\<close>.\<close>

datatype content = CStr string | CList "block list" | CNone | COther string

record message =
  role :: string
  content :: content

record response =
  resp_id :: string
  resp_role :: string
  resp_content :: string
  finish_reason :: string

text \<open>
  The request dictionary \<^verbatim>\<open>data\<close>: \<open>lp_metadata\<close> is \<^verbatim>\<open>data["litellm_params"]["metadata"]\<close>,
  \<open>skip_llm_call\<close> and \<open>do_not_route\<close> are the two flags that keep the host from calling upstream.
\<close>

record request =
  model :: "string option"
  messages :: "message list"
  system :: "string option"
  metadata :: "string \<rightharpoonup> pyval"
  headers :: "string \<rightharpoonup> string"
  lp_metadata :: "string \<rightharpoonup> pyval"
  response :: "response option"
  skip_llm_call :: bool
  do_not_route :: bool

section \<open>Configuration and environment\<close>

text \<open>
  The module-level constants read from the process environment at import time, and what the
  pipeline takes from outside: the digests, the file system, the clock, the upstream classifier.
\<close>

record config =
  CONTEXT_SOFT_LIMIT_TOKENS :: int
  CONTEXT_HARD_LIMIT_TOKENS :: int
  CONTEXT_BLOCK_LIMIT_TOKENS :: int
  CONTEXT_DUPLICATE_MIN_TOKENS :: int
  ENFORCEMENT_OVERHEAD_TOKENS :: int
  LEDGER_ENFORCEMENT_APPLY_ALL :: bool
  LEDGER_ENFORCEMENT_REPOS :: "string list"
  COMPLEXITY_OVERRIDE_DEFAULT_TTL_MINUTES :: int
  COMPLEXITY_OVERRIDE_MAX_TTL_MINUTES :: int
  SESSION_CACHE_TTL_SECONDS :: int
  REQUEST_CAPTURE_ENABLED :: bool
  sha256_hex :: "string \<Rightarrow> string"
  md5_hex :: "string \<Rightarrow> string"

text \<open>The defaults of the source, with the digests left to the caller.\<close>

definition default_config :: "(string \<Rightarrow> string) \<Rightarrow> (string \<Rightarrow> string) \<Rightarrow> config" where
  "default_config sha md =
     \<lparr> CONTEXT_SOFT_LIMIT_TOKENS = 180000, CONTEXT_HARD_LIMIT_TOKENS = 200000,
       CONTEXT_BLOCK_LIMIT_TOKENS = 12000, CONTEXT_DUPLICATE_MIN_TOKENS = 800,
       ENFORCEMENT_OVERHEAD_TOKENS = 400, LEDGER_ENFORCEMENT_APPLY_ALL = True,
       LEDGER_ENFORCEMENT_REPOS = [], COMPLEXITY_OVERRIDE_DEFAULT_TTL_MINUTES = 5,
       COMPLEXITY_OVERRIDE_MAX_TTL_MINUTES = 60, SESSION_CACHE_TTL_SECONDS = 7200,
       REQUEST_CAPTURE_ENABLED = False, sha256_hex = sha, md5_hex = md \<rparr>"

section \<open>Context-exhaustion guard\<close>

text \<open>\<^verbatim>\<open>_estimate_tokens_from_text\<close>: \<^verbatim>\<open>max(1, math.ceil(len(text) / 4))\<close>, 0 for an empty text.\<close>

definition estimate_tokens_from_text :: "string \<Rightarrow> int" where
  "estimate_tokens_from_text text =
     (if text = [] then 0 else max 1 (int ((length text + 3) div 4)))"

fun block_text :: "block \<Rightarrow> string" where
  "block_text (TextBlock t) = t"
| "block_text (ToolResult t) = t"
| "block_text (OtherDict t) = t"
| "block_text (NonDict t) = t"

text \<open>\<^verbatim>\<open>sep.join(parts)\<close>.\<close>

fun join :: "string \<Rightarrow> string list \<Rightarrow> string" where
  "join sep [] = []"
| "join sep [p] = p"
| "join sep (p # q # ps) = p @ sep @ join sep (q # ps)"

text \<open>\<^verbatim>\<open>_normalize_message_text\<close>.\<close>

fun normalize_content :: "content \<Rightarrow> string" where
  "normalize_content (CStr s) = s"
| "normalize_content (CList bs) = join nl (map block_text bs)"
| "normalize_content CNone = []"
| "normalize_content (COther s) = s"

definition normalize_message_text :: "message \<Rightarrow> string" where
  "normalize_message_text m = normalize_content (content m)"

definition duplicate_stub :: string where
  "duplicate_stub = ''[[Duplicate context removed at proxy; reference earlier block]]''"

definition large_block_stub :: "config \<Rightarrow> int \<Rightarrow> string" where
  "large_block_stub cfg block_tokens =
     ''[[Block suppressed: '' @ show_int block_tokens @ '' tokens exceeded ''
       @ show_int (CONTEXT_BLOCK_LIMIT_TOKENS cfg) @ ''. Please summarize upstream.]]''"

text \<open>
  Pass 1 of \<^verbatim>\<open>_apply_context_exhaustion_protection\<close>, one message at a time: the accumulator
  holds the messages as rewritten so far, the digests seen, both counters and the running total.
\<close>

record pass1_acc =
  p1_messages :: "message list"
  seen_hashes :: "string list"
  duplicates :: nat
  large_blocks :: nat
  total_tokens :: int

definition pass1_step :: "config \<Rightarrow> pass1_acc \<Rightarrow> message \<Rightarrow> pass1_acc" where
  "pass1_step cfg acc m =
     (let text = normalize_message_text m;
          block_tokens = estimate_tokens_from_text text;
          digest = sha256_hex cfg text;
          is_dup = (text \<noteq> [] \<and> block_tokens \<ge> CONTEXT_DUPLICATE_MIN_TOKENS cfg
                    \<and> digest \<in> set (seen_hashes acc));
          is_new = (text \<noteq> [] \<and> block_tokens \<ge> CONTEXT_DUPLICATE_MIN_TOKENS cfg
                    \<and> digest \<notin> set (seen_hashes acc));
          m1 = (if is_dup then m\<lparr>content := CStr duplicate_stub\<rparr> else m);
          text1 = (if is_dup then duplicate_stub else text);
          tokens1 = (if is_dup then estimate_tokens_from_text duplicate_stub else block_tokens);
          is_large = (text1 \<noteq> [] \<and> tokens1 > CONTEXT_BLOCK_LIMIT_TOKENS cfg);
          m2 = (if is_large then m1\<lparr>content := CStr (large_block_stub cfg tokens1)\<rparr> else m1);
          tokens2 = (if is_large then estimate_tokens_from_text (large_block_stub cfg tokens1)
                     else tokens1)
      in \<lparr> p1_messages = p1_messages acc @ [m2],
           seen_hashes = (if is_new then digest # seen_hashes acc else seen_hashes acc),
           duplicates = (if is_dup then Suc (duplicates acc) else duplicates acc),
           large_blocks = (if is_large then Suc (large_blocks acc) else large_blocks acc),
           total_tokens = total_tokens acc + tokens2 \<rparr>)"

definition pass1 :: "config \<Rightarrow> message list \<Rightarrow> pass1_acc" where
  "pass1 cfg msgs =
     foldl (pass1_step cfg)
       \<lparr> p1_messages = [], seen_hashes = [], duplicates = 0, large_blocks = 0,
         total_tokens = ENFORCEMENT_OVERHEAD_TOKENS cfg \<rparr> msgs"

text \<open>Pass 2. The index of the last \<^verbatim>\<open>role == "user"\<close> message, \<^verbatim>\<open>None\<close> when there is none.\<close>

fun last_user_from :: "nat \<Rightarrow> message list \<Rightarrow> nat option" where
  "last_user_from i [] = None"
| "last_user_from i (m # ms) =
     (case last_user_from (Suc i) ms of
        Some j \<Rightarrow> Some j
      | None \<Rightarrow> (if role m = ''user'' then Some i else None))"

definition last_user_idx :: "message list \<Rightarrow> nat option" where
  "last_user_idx msgs = last_user_from 0 msgs"

text \<open>The candidates, in the order of the list: index and token cost.\<close>

definition candidates :: "message list \<Rightarrow> (nat \<times> int) list" where
  "candidates msgs =
     map (\<lambda>(i, m). (i, estimate_tokens_from_text (normalize_message_text m)))
       (filter (\<lambda>(i, m). role m \<noteq> ''system'' \<and> last_user_idx msgs \<noteq> Some i)
          (enumerate 0 msgs))"

text \<open>The removal loop: it stops at the first candidate it meets with the total at or under the soft limit.\<close>

fun removal_loop :: "int \<Rightarrow> int \<Rightarrow> (nat \<times> int) list \<Rightarrow> nat list \<times> int" where
  "removal_loop soft tot [] = ([], tot)"
| "removal_loop soft tot ((i, cost) # cs) =
     (if tot \<le> soft then ([], tot)
      else (let (r, t) = removal_loop soft (tot - cost) cs in (i # r, t)))"

definition remove_indices :: "nat list \<Rightarrow> message list \<Rightarrow> message list" where
  "remove_indices removal msgs =
     map snd (filter (\<lambda>(i, m). i \<notin> set removal) (enumerate 0 msgs))"

record trim_result =
  t_messages :: "message list"
  t_total :: int
  removal_indices :: "nat list"

definition trim_pass :: "config \<Rightarrow> int \<Rightarrow> message list \<Rightarrow> trim_result" where
  "trim_pass cfg tot msgs =
     (if tot > CONTEXT_SOFT_LIMIT_TOKENS cfg then
        (let (removal, tot') = removal_loop (CONTEXT_SOFT_LIMIT_TOKENS cfg) tot (candidates msgs)
         in \<lparr> t_messages = (if removal \<noteq> [] then remove_indices removal msgs else msgs),
              t_total = tot', removal_indices = removal \<rparr>)
      else \<lparr> t_messages = msgs, t_total = tot, removal_indices = [] \<rparr>)"

text \<open>Both passes: what the guard knows when it reaches the hard-limit test.\<close>

record scan_result =
  s_messages :: "message list"
  s_total :: int
  s_trimmed :: bool
  s_trimmed_count :: nat
  s_duplicates :: nat
  s_large_blocks :: nat

definition guard_scan :: "config \<Rightarrow> message list \<Rightarrow> scan_result" where
  "guard_scan cfg msgs =
     (let acc = pass1 cfg msgs;
          tr = trim_pass cfg (total_tokens acc) (p1_messages acc)
      in \<lparr> s_messages = t_messages tr, s_total = t_total tr,
           s_trimmed = (removal_indices tr \<noteq> []),
           s_trimmed_count = length (remdups (removal_indices tr)),
           s_duplicates = duplicates acc, s_large_blocks = large_blocks acc \<rparr>)"

definition refusal_message :: string where
  "refusal_message =
     ''This request exceeds the proxy's context capacity even after automatic trimming. ''
     @ ''Please summarize earlier files or send smaller chunks before retrying.''"

definition context_exhaustion_response :: response where
  "context_exhaustion_response =
     \<lparr> resp_id = ''context_exhaustion'', resp_role = ''assistant'',
       resp_content = refusal_message, finish_reason = ''context_exhaustion'' \<rparr>"

text \<open>\<^verbatim>\<open>total_tokens / CONTEXT_SOFT_LIMIT_TOKENS if CONTEXT_SOFT_LIMIT_TOKENS else 0\<close>, as a rational.\<close>

definition risk_ratio :: "config \<Rightarrow> int \<Rightarrow> rat" where
  "risk_ratio cfg tot =
     (if CONTEXT_SOFT_LIMIT_TOKENS cfg \<noteq> 0
      then of_int tot / of_int (CONTEXT_SOFT_LIMIT_TOKENS cfg) else 0)"

definition risk_level :: "config \<Rightarrow> int \<Rightarrow> string" where
  "risk_level cfg tot =
     (if risk_ratio cfg tot \<ge> 1 then ''high''
      else if risk_ratio cfg tot \<ge> 8 / 10 then ''medium'' else ''low'')"

text \<open>
  \<^verbatim>\<open>_apply_context_exhaustion_protection\<close>: the value of \<^verbatim>\<open>refused\<close> and the request as it leaves
  the guard. An empty message list is \<^verbatim>\<open>data.get("messages") or []\<close>: nothing is written back.
\<close>

definition apply_context_exhaustion_protection :: "config \<Rightarrow> request \<Rightarrow> bool \<times> request" where
  "apply_context_exhaustion_protection cfg data =
     (let sc = guard_scan cfg (messages data);
          md = metadata data
      in if s_total sc > CONTEXT_HARD_LIMIT_TOKENS cfg then
           (True, data\<lparr> messages := s_messages sc,
                        response := Some context_exhaustion_response,
                        skip_llm_call := True, do_not_route := True,
                        metadata := md(''context_tokens_estimated'' \<mapsto> PInt (s_total sc),
                                       ''context_trimmed'' \<mapsto> PBool (s_trimmed sc),
                                       ''context_trimmed_count'' \<mapsto> PInt (int (s_trimmed_count sc)),
                                       ''duplicate_blocks_detected'' \<mapsto> PInt (int (s_duplicates sc)),
                                       ''exhaustion_risk'' \<mapsto> PStr ''fatal'') \<rparr>)
         else
           (False, data\<lparr> messages := s_messages sc,
                         metadata := md(''context_tokens_estimated'' \<mapsto> PInt (s_total sc),
                                        ''context_trimmed'' \<mapsto> PBool (s_trimmed sc),
                                        ''context_trimmed_count'' \<mapsto> PInt (int (s_trimmed_count sc)),
                                        ''duplicate_blocks_detected'' \<mapsto> PInt (int (s_duplicates sc)),
                                        ''large_blocks_suppressed'' \<mapsto> PInt (int (s_large_blocks sc)),
                                        ''exhaustion_risk'' \<mapsto> PStr (risk_level cfg (s_total sc))) \<rparr>))"

section \<open>Ledger reminder\<close>

text \<open>\<^verbatim>\<open>metadata.get(key, default)\<close>.\<close>

definition get_default :: "(string \<rightharpoonup> pyval) \<Rightarrow> string \<Rightarrow> pyval \<Rightarrow> pyval" where
  "get_default m k d = (case m k of None \<Rightarrow> d | Some v \<Rightarrow> v)"

text \<open>The first ledger line holds the arrow U+2192 of the source, written here as its three UTF-8 bytes.\<close>

definition ledger_base_lines :: "string list" where
  "ledger_base_lines =
     [''Before working, rehydrate from README.md '' @ [CHR 0xE2, CHR 0x86, CHR 0x92]
        @ '' Session Recovery Ledger.'',
      ''After any plan change / major decision / checkpoint, update README and AGENTS immediately.'']"

definition ledger_guard_line :: string where
  "ledger_guard_line =
     ''Context guard intervened on this request. Summarize current progress in README before continuing.''"

text \<open>The condition under which \<^verbatim>\<open>_build_ledger_reminder\<close> sets \<^verbatim>\<open>alert_reason\<close>.\<close>

definition guard_intervened :: "(string \<rightharpoonup> pyval) \<Rightarrow> bool" where
  "guard_intervened md =
     (let trimmed_flag = (lower (py_str (get_default md ''context_trimmed'' (PStr ''false''))) = ''true'');
          trimmed_count = get_default md ''context_trimmed_count'' (PInt 0);
          risk = get_default md ''exhaustion_risk'' (PStr ''low'');
          dups = get_default md ''duplicate_blocks_detected'' (PInt 0);
          large = get_default md ''large_blocks_suppressed'' (PInt 0)
      in trimmed_flag \<or> truthy trimmed_count \<or> truthy dups \<or> truthy large
         \<or> risk = PStr ''medium'' \<or> risk = PStr ''high'')"

text \<open>The first test of \<^verbatim>\<open>_build_ledger_reminder\<close>, negated: the repo is under ledger enforcement.\<close>

definition ledger_applies :: "config \<Rightarrow> pyval option \<Rightarrow> bool" where
  "ledger_applies cfg repo =
     (case repo of
        None \<Rightarrow> False
      | Some r \<Rightarrow> truthy r \<and>
          (LEDGER_ENFORCEMENT_APPLY_ALL cfg \<or> lower (py_str r) \<in> set (LEDGER_ENFORCEMENT_REPOS cfg)))"

text \<open>
  \<^verbatim>\<open>_build_ledger_reminder\<close>: the reminder and the alert reason. The repo is a string wherever it is
  set by the pipeline; another value is rendered by \<^verbatim>\<open>str\<close>.
\<close>

definition build_ledger_reminder ::
  "config \<Rightarrow> pyval option \<Rightarrow> (string \<rightharpoonup> pyval) \<Rightarrow> string option \<times> string option" where
  "build_ledger_reminder cfg repo md =
     (if \<not> ledger_applies cfg repo then (None, None)
      else
        (let alert = guard_intervened md;
             lines = ledger_base_lines @ (if alert then [ledger_guard_line] else []);
             reminder = ''LEDGER REMINDER ('' @ py_str (the repo) @ ''):'' @ nl @ ''- ''
                        @ join (nl @ ''- '') lines
         in (Some reminder, if alert then Some ''context_guard'' else None)))"

section \<open>Policy contract\<close>

text \<open>
  What a call reads from outside the request: files, the resolved form of a path, the reply of
  the upstream classifier (\<^verbatim>\<open>None\<close> when the call raises), the parsed \<^verbatim>\<open>CLAUDE_METADATA\<close>
  variable, a fresh id, the build id, a session file, and the clock at each place that reads it.
\<close>

record world =
  read_file :: "string \<Rightarrow> string option"
  resolve_path :: "string \<Rightarrow> string option"
  acompletion :: "string \<Rightarrow> string option"
  CLAUDE_METADATA :: "(string \<rightharpoonup> pyval) option"
  uuid_hex :: string
  ROUTER_BUILD_ID :: string
  load_session_file :: "string \<Rightarrow> (string \<times> string) option"
  now_session :: int
  now_set :: int
  now_get :: int
  now_remaining :: int
  now_cache_get :: int
  now_cache_set :: int

record contract =
  readme :: string
  agents :: string
  contract_text :: string
  hash :: string

text \<open>\<^verbatim>\<open>repo_root / name\<close> for a resolved (absolute) root.\<close>

definition path_join :: "string \<Rightarrow> string \<Rightarrow> string" where
  "path_join rt name = (if rt = ''/'' then ''/'' @ name else rt @ ''/'' @ name)"

text \<open>\<^verbatim>\<open>load_policy_contract\<close> for a root that is present: a file that is missing or unreadable reads as empty.\<close>

definition load_policy_contract :: "config \<Rightarrow> world \<Rightarrow> string \<Rightarrow> contract" where
  "load_policy_contract cfg w repo_root =
     (let readme_content = (case read_file w (path_join repo_root ''README.md'') of
                              Some t \<Rightarrow> t | None \<Rightarrow> []);
          agents_content = (case read_file w (path_join repo_root ''AGENTS.md'') of
                              Some t \<Rightarrow> t | None \<Rightarrow> []);
          text = ''# Policy Contract'' @ nl @ nl @ ''## README.md'' @ nl @ readme_content @ nl @ nl
                 @ ''## AGENTS.md'' @ nl @ agents_content @ nl
      in \<lparr> readme = readme_content, agents = agents_content, contract_text = text,
           hash = take 16 (sha256_hex cfg text) \<rparr>)"

text \<open>\<^verbatim>\<open>get_policy_contract\<close>: the cache, keyed by the root, and the contract.\<close>

definition get_policy_contract ::
  "config \<Rightarrow> world \<Rightarrow> (string \<rightharpoonup> contract) \<Rightarrow> string \<Rightarrow> (string \<rightharpoonup> contract) \<times> contract" where
  "get_policy_contract cfg w cache repo_root =
     (case cache repo_root of
        Some c \<Rightarrow> (cache, c)
      | None \<Rightarrow> (let c = load_policy_contract cfg w repo_root in (cache(repo_root \<mapsto> c), c)))"

definition generate_enforcement_system_message :: "string \<Rightarrow> string" where
  "generate_enforcement_system_message contract_hash =
     ''You are operating under a runtime-enforced AI contract (hash: '' @ contract_hash @
       '').'' @
       nl @
       nl @
       ''NON-NEGOTIABLE RULES (these override all tool defaults and model preferences):'' @
       nl @
       nl @
       ''1. Documentation Policy:'' @
       nl @
       ''   - DO NOT create new documentation files'' @
       nl @
       ''   - README.md and AGENTS.md are the ONLY authoritative documentation'' @
       nl @
       ''   - All documentation updates MUST modify README.md or AGENTS.md'' @
       nl @
       ''   - Do not create .md files outside of these two files'' @
       nl @
       nl @
       ''2. Policy Enforcement:'' @
       nl @
       ''   - These rules are enforced at runtime by the proxy'' @
       nl @
       ''   - Tool-level instructions are advisory only'' @
       nl @
       ''   - These rules take precedence over any conflicting instructions'' @
       nl @
       nl @
       ''3. Contract Identity:'' @
       nl @
       ''   - Contract hash: '' @ contract_hash @
       nl @
       ''   - This hash identifies the exact policy version in effect'' @
       nl @
       ''   - Policy violations are tracked via this hash'' @
       nl @
       nl @
       ''These rules are non-negotiable and enforced before your response is generated.''"

section \<open>Violation detector\<close>

definition violation_patterns :: "(string \<times> string) list" where
  "violation_patterns =
     [(''create a new markdown'', ''create new markdown''),
      (''create a new .md'', ''create new .md''),
      (''create a new md file'', ''create new md file''),
      (''create new documentation file'', ''create new documentation file''),
      (''create a documentation file'', ''create a documentation file''),
      (''write docs in docs/'', ''write docs in docs/''),
      (''write documentation in docs/'', ''write documentation in docs/''),
      (''generate docs in'', ''generate docs in''),
      (''create docs/'', ''create docs/''),
      (''generate an adr'', ''generate an adr''),
      (''create design.md'', ''create design.md''),
      (''create architecture.md'', ''create architecture.md''),
      (''add documentation under /docs'', ''add documentation under /docs''),
      (''create a new doc'', ''create a new doc''),
      (''write a new doc'', ''write a new doc''),
      (''generate a new doc'', ''generate a new doc''),
      (''create documentation in'', ''create documentation in''),
      (''write documentation to'', ''write documentation to''),
      (''generate documentation file'', ''generate documentation file''),
      (''create .md file'', ''create .md file''),
      (''new markdown file'', ''new markdown file''),
      (''new documentation file'', ''new documentation file'')]"

definition folder_patterns :: "string list" where
  "folder_patterns = [''docs/'', ''architecture/'', ''design/'', ''documentation/'']"

definition create_indicators :: "string list" where
  "create_indicators = [''create'', ''write'', ''generate'', ''add'', ''new'']"

text \<open>The escape hatch: the lowered message names one of the two allowed files.\<close>

definition mentions_allowed_file :: "string \<Rightarrow> bool" where
  "mentions_allowed_file message_lower =
     (contains ''readme.md'' message_lower \<or> contains ''agents.md'' message_lower)"

text \<open>The first loop of \<^verbatim>\<open>detect_policy_violation\<close>: \<^verbatim>\<open>continue\<close> on the escape hatch, else return.\<close>

fun pattern_loop :: "string \<Rightarrow> (string \<times> string) list \<Rightarrow> string option" where
  "pattern_loop message_lower [] = None"
| "pattern_loop message_lower ((pattern, reason) # ps) =
     (if contains pattern message_lower then
        (if mentions_allowed_file message_lower then pattern_loop message_lower ps
         else Some (''Request explicitly asks to '' @ reason))
      else pattern_loop message_lower ps)"

text \<open>The inner loop over the creation verbs, for one folder that the message names.\<close>

fun indicator_loop :: "string \<Rightarrow> string \<Rightarrow> string list \<Rightarrow> string option" where
  "indicator_loop message_lower folder [] = None"
| "indicator_loop message_lower folder (indicator # is) =
     (if contains indicator message_lower \<and> contains folder message_lower then
        (if mentions_allowed_file message_lower then indicator_loop message_lower folder is
         else Some (''Request asks to create documentation in '' @ folder))
      else indicator_loop message_lower folder is)"

fun folder_loop :: "string \<Rightarrow> string list \<Rightarrow> string option" where
  "folder_loop message_lower [] = None"
| "folder_loop message_lower (folder # fs) =
     (if contains folder message_lower then
        (case indicator_loop message_lower folder create_indicators of
           Some r \<Rightarrow> Some r
         | None \<Rightarrow> folder_loop message_lower fs)
      else folder_loop message_lower fs)"

definition detect_policy_violation :: "string \<Rightarrow> string option" where
  "detect_policy_violation user_message =
     (if user_message = [] then None
      else
        (let message_lower = lower user_message in
         case pattern_loop message_lower violation_patterns of
           Some r \<Rightarrow> Some r
         | None \<Rightarrow> folder_loop message_lower folder_patterns))"

section \<open>The last user message\<close>

text \<open>The text parts that \<^verbatim>\<open>extract_user_message\<close> collects from a list of blocks.\<close>

fun user_text_parts :: "block list \<Rightarrow> string list" where
  "user_text_parts [] = []"
| "user_text_parts (TextBlock t # bs) = t # user_text_parts bs"
| "user_text_parts (ToolResult t # bs) = t # user_text_parts bs"
| "user_text_parts (b # bs) = user_text_parts bs"

text \<open>
  \<^verbatim>\<open>extract_user_message\<close>: only the last message of role \<^verbatim>\<open>user\<close> is looked at; the loop breaks
  after it, whatever its content.
\<close>

definition extract_user_message :: "message list \<Rightarrow> string option" where
  "extract_user_message msgs =
     (case find (\<lambda>m. role m = ''user'') (rev msgs) of
        None \<Rightarrow> None
      | Some m \<Rightarrow>
          (case content m of
             CStr s \<Rightarrow> Some s
           | CList bs \<Rightarrow>
               (let text_parts = user_text_parts bs
                in if text_parts \<noteq> [] then Some (join '' '' text_parts) else None)
           | _ \<Rightarrow> None))"

section \<open>A small configuration for examples\<close>

text \<open>Limits small enough to evaluate the guard on short messages; the digests are the identity.\<close>

definition small_config :: config where
  "small_config =
     \<lparr> CONTEXT_SOFT_LIMIT_TOKENS = 10, CONTEXT_HARD_LIMIT_TOKENS = 12,
       CONTEXT_BLOCK_LIMIT_TOKENS = 6, CONTEXT_DUPLICATE_MIN_TOKENS = 3,
       ENFORCEMENT_OVERHEAD_TOKENS = 4, LEDGER_ENFORCEMENT_APPLY_ALL = True,
       LEDGER_ENFORCEMENT_REPOS = [], COMPLEXITY_OVERRIDE_DEFAULT_TTL_MINUTES = 5,
       COMPLEXITY_OVERRIDE_MAX_TTL_MINUTES = 60, SESSION_CACHE_TTL_SECONDS = 7200,
       REQUEST_CAPTURE_ENABLED = False, sha256_hex = (\<lambda>s. s), md5_hex = (\<lambda>s. s) \<rparr>"

definition msg :: "string \<Rightarrow> string \<Rightarrow> message" where
  "msg r c = \<lparr> role = r, content = CStr c \<rparr>"

section \<open>Regular expressions of the override commands\<close>

text \<open>
  The fragment of \<^verbatim>\<open>re\<close> that the two patterns use, with the matching order of a backtracking
  matcher: a literal (compared without case, as under \<^verbatim>\<open>re.IGNORECASE\<close>), \<^verbatim>\<open>\s+\<close>, \<^verbatim>\<open>\d+\<close>,
  \<^verbatim>\<open>\s*\<close> (greedy), alternation (left first), sequence, \<^verbatim>\<open>(...)?\<close> (greedy), a numbered group
  and \<^verbatim>\<open>\b\<close>.
\<close>

datatype cclass = Space | Digit

datatype rx =
    Lit string
  | Plus cclass
  | Star cclass
  | Alt rx rx
  | Seq rx rx
  | Opt rx
  | Group nat rx
  | WordBoundary

definition is_digit :: "char \<Rightarrow> bool" where
  "is_digit c = (c \<in> set ''0123456789'')"

text \<open>\<^verbatim>\<open>\w\<close> on a code point below 256: what \<^verbatim>\<open>str.isalnum()\<close> accepts, and the underscore.\<close>

definition word_chars :: string where
  "word_chars = ''abcdefghijklmnopqrstuvwxyzABCDEFGHIJKLMNOPQRSTUVWXYZ0123456789_'' @ lower_chars
     @ upper_chars @ [CHR 0xAA, CHR 0xB2, CHR 0xB3, CHR 0xB5, CHR 0xB9, CHR 0xBA, CHR 0xBC, CHR 0xBD,
                      CHR 0xBE, CHR 0xDF, CHR 0xFF]"

definition is_word :: "char \<Rightarrow> bool" where
  "is_word c = (c \<in> set word_chars)"

fun in_class :: "cclass \<Rightarrow> char \<Rightarrow> bool" where
  "in_class Space c = is_space c"
| "in_class Digit c = is_digit c"

text \<open>A state of the matcher: the character before the position, the rest of the input, the groups.\<close>

type_synonym mstate = "char option \<times> string \<times> (nat \<times> string) list"

text \<open>The rest of the input after a literal, compared without case.\<close>

fun lit_match :: "string \<Rightarrow> string \<Rightarrow> string option" where
  "lit_match [] rest = Some rest"
| "lit_match (p # ps) [] = None"
| "lit_match (p # ps) (c # cs) = (if lower_char p = lower_char c then lit_match ps cs else None)"

text \<open>One or more characters of a class: the states after each number of them, the longest first.\<close>

fun consume_class :: "cclass \<Rightarrow> char option \<Rightarrow> string \<Rightarrow> (nat \<times> string) list \<Rightarrow> mstate list" where
  "consume_class cls p [] g = []"
| "consume_class cls p (c # cs) g =
     (if in_class cls c then consume_class cls (Some c) cs g @ [(Some c, cs, g)] else [])"

definition prev_after :: "char option \<Rightarrow> string \<Rightarrow> string \<Rightarrow> char option" where
  "prev_after p rest rest' =
     (let consumed = take (length rest - length rest') rest
      in if consumed = [] then p else Some (last consumed))"

primrec rx_match :: "rx \<Rightarrow> mstate \<Rightarrow> mstate list" where
  "rx_match (Lit s) st =
     (case st of (p, rest, g) \<Rightarrow>
        (case lit_match s rest of
           None \<Rightarrow> []
         | Some rest' \<Rightarrow> [(prev_after p rest rest', rest', g)]))"
| "rx_match (Plus cls) st = (case st of (p, rest, g) \<Rightarrow> consume_class cls p rest g)"
| "rx_match (Star cls) st = (case st of (p, rest, g) \<Rightarrow> consume_class cls p rest g @ [st])"
| "rx_match (Alt a b) st = rx_match a st @ rx_match b st"
| "rx_match (Seq a b) st = concat (map (rx_match b) (rx_match a st))"
| "rx_match (Opt a) st = rx_match a st @ [st]"
| "rx_match (Group n a) st =
     (case st of (p, rest, g) \<Rightarrow>
        map (\<lambda>(p', rest', g'). (p', rest', (n, take (length rest - length rest') rest) # g'))
          (rx_match a st))"
| "rx_match WordBoundary st =
     (case st of (p, rest, g) \<Rightarrow>
        (if (case p of None \<Rightarrow> False | Some c \<Rightarrow> is_word c)
            \<noteq> (case rest of [] \<Rightarrow> False | c # cs \<Rightarrow> is_word c)
         then [st] else []))"

text \<open>\<^verbatim>\<open>pattern.search(s)\<close>: the first match at the leftmost position that has one.\<close>

fun rx_search_from :: "rx \<Rightarrow> char option \<Rightarrow> string \<Rightarrow> mstate option" where
  "rx_search_from r p [] = (case rx_match r (p, [], []) of [] \<Rightarrow> None | st # sts \<Rightarrow> Some st)"
| "rx_search_from r p (c # cs) =
     (case rx_match r (p, c # cs, []) of
        st # sts \<Rightarrow> Some st
      | [] \<Rightarrow> rx_search_from r (Some c) cs)"

definition rx_search :: "rx \<Rightarrow> string \<Rightarrow> mstate option" where
  "rx_search r s = rx_search_from r None s"

text \<open>\<^verbatim>\<open>match.group(n)\<close>: \<^verbatim>\<open>None\<close> for a group that took no part in the match.\<close>

definition group :: "mstate \<Rightarrow> nat \<Rightarrow> string option" where
  "group st n = (case st of (p, rest, g) \<Rightarrow> map_of g n)"

fun alts :: "rx list \<Rightarrow> rx" where
  "alts [] = Lit []"
| "alts [r] = r"
| "alts (r # q # rs) = Alt r (alts (q # rs))"

fun seqs :: "rx list \<Rightarrow> rx" where
  "seqs [] = Lit []"
| "seqs [r] = r"
| "seqs (r # q # rs) = Seq r (seqs (q # rs))"

definition CANCEL_OVERRIDE_PATTERN :: rx where
  "CANCEL_OVERRIDE_PATTERN =
     seqs [alts [Lit ''cancel'', Lit ''clear'', Lit ''stop'', Lit ''remove'', Lit ''disable'', Lit ''reset''],
           Plus Space,
           Opt (seqs [Lit ''the'', Plus Space]),
           Opt (seqs [Lit ''model'', Plus Space]),
           alts [Lit ''override'', Lit ''routing'', Lit ''complexity'']]"

definition OVERRIDE_PATTERN :: rx where
  "OVERRIDE_PATTERN =
     seqs [alts [Lit ''use'', seqs [Lit ''switch'', Plus Space, Lit ''to''], Lit ''force'', Lit ''set''],
           Plus Space,
           Group 1 (alts [Lit ''opus'', Lit ''sonnet'', Lit ''haiku'']),
           Opt (seqs [Plus Space,
                      alts [Lit ''for'', Lit ''during''],
                      Plus Space,
                      Opt (seqs [Lit ''the'', Plus Space, Lit ''next'', Plus Space]),
                      Group 2 (Plus Digit),
                      Star Space,
                      alts [seqs [Lit ''min'', Opt (Lit ''ute''), Opt (Lit ''s'')], Lit ''m''],
                      WordBoundary])]"

definition MODEL_NAME_TO_COMPLEXITY :: "(string \<times> string) list" where
  "MODEL_NAME_TO_COMPLEXITY =
     [(''opus'', ''COMPLEX''), (''sonnet'', ''MODERATE''), (''haiku'', ''SIMPLE'')]"

text \<open>\<^verbatim>\<open>int(s)\<close> for a string of decimal digits.\<close>

definition digit_value :: "char \<Rightarrow> int" where
  "digit_value c = (case map_of (zip ''0123456789'' [0, 1, 2, 3, 4, 5, 6, 7, 8, 9]) c of
                      Some d \<Rightarrow> d | None \<Rightarrow> 0)"

definition int_of_digits :: "string \<Rightarrow> int" where
  "int_of_digits s = foldl (\<lambda>a c. 10 * a + digit_value c) 0 s"

section \<open>Override commands and the override store\<close>

text \<open>The two dictionaries that \<^verbatim>\<open>_parse_override_command\<close> returns.\<close>

datatype override_command =
    Cancel
  | SetOverride (cmd_model: string) (cmd_complexity: string) (cmd_ttl_minutes: int)

definition parse_override_command :: "config \<Rightarrow> string \<Rightarrow> override_command option" where
  "parse_override_command cfg message =
     (if message = [] then None
      else if rx_search CANCEL_OVERRIDE_PATTERN message \<noteq> None then Some Cancel
      else
        (case rx_search OVERRIDE_PATTERN message of
           None \<Rightarrow> None
         | Some m \<Rightarrow>
             (case group m 1 of
                None \<Rightarrow> None
              | Some g1 \<Rightarrow>
                  (let model_name = lower g1 in
                   case map_of MODEL_NAME_TO_COMPLEXITY model_name of
                     None \<Rightarrow> None
                   | Some complexity \<Rightarrow>
                       Some (SetOverride model_name complexity
                               (case group m 2 of
                                  None \<Rightarrow> COMPLEXITY_OVERRIDE_DEFAULT_TTL_MINUTES cfg
                                | Some duration_str \<Rightarrow>
                                    (if duration_str \<noteq> []
                                     then min (int_of_digits duration_str)
                                            (COMPLEXITY_OVERRIDE_MAX_TTL_MINUTES cfg)
                                     else COMPLEXITY_OVERRIDE_DEFAULT_TTL_MINUTES cfg)))))))"

text \<open>An entry of \<^verbatim>\<open>_complexity_override_cache\<close>; instants and durations are in seconds.\<close>

record override =
  complexity :: string
  expires :: int
  created :: int
  ttl_minutes :: int

type_synonym override_store = "string \<rightharpoonup> override"

text \<open>A session id is falsy when it is \<^verbatim>\<open>None\<close> or empty.\<close>

definition session_ok :: "string option \<Rightarrow> bool" where
  "session_ok sid = (case sid of None \<Rightarrow> False | Some s \<Rightarrow> s \<noteq> [])"

definition cleanup_expired_overrides :: "int \<Rightarrow> override_store \<Rightarrow> override_store" where
  "cleanup_expired_overrides now store =
     (\<lambda>sid. case store sid of
               None \<Rightarrow> None
             | Some ov \<Rightarrow> (if expires ov < now then None else Some ov))"

definition set_complexity_override ::
  "world \<Rightarrow> override_store \<Rightarrow> string option \<Rightarrow> string \<Rightarrow> int \<Rightarrow> override_store" where
  "set_complexity_override w store session_id cx ttl =
     (if \<not> session_ok session_id then store
      else cleanup_expired_overrides (now_set w)
             (store(the session_id \<mapsto>
                \<lparr> complexity = cx, expires = now_set w + ttl * 60, created = now_set w,
                  ttl_minutes = ttl \<rparr>)))"

text \<open>\<^verbatim>\<open>_get_complexity_override\<close>: an expired entry is dropped from the store.\<close>

definition get_complexity_override ::
  "world \<Rightarrow> override_store \<Rightarrow> string option \<Rightarrow> override_store \<times> string option" where
  "get_complexity_override w store session_id =
     (if \<not> session_ok session_id then (store, None)
      else
        (case store (the session_id) of
           None \<Rightarrow> (store, None)
         | Some ov \<Rightarrow>
             (if expires ov < now_get w then (store((the session_id) := None), None)
              else (store, Some (complexity ov)))))"

definition cancel_complexity_override ::
  "override_store \<Rightarrow> string option \<Rightarrow> override_store \<times> bool" where
  "cancel_complexity_override store session_id =
     (if \<not> session_ok session_id then (store, False)
      else
        (case store (the session_id) of
           None \<Rightarrow> (store, False)
         | Some ov \<Rightarrow> (store((the session_id) := None), True)))"

definition get_override_remaining_seconds ::
  "world \<Rightarrow> override_store \<Rightarrow> string option \<Rightarrow> int option" where
  "get_override_remaining_seconds w store session_id =
     (if \<not> session_ok session_id then None
      else
        (case store (the session_id) of
           None \<Rightarrow> None
         | Some ov \<Rightarrow>
             (if expires ov - now_remaining w > 0 then Some (max 0 (expires ov - now_remaining w))
              else None)))"

text \<open>Lines 1933 to 1946 of the hook: the command of the last user message, applied to the store.\<close>

definition apply_override_command ::
  "config \<Rightarrow> world \<Rightarrow> override_store \<Rightarrow> string option \<Rightarrow> string option \<Rightarrow> override_store" where
  "apply_override_command cfg w store session_id user_message =
     (case user_message of
        None \<Rightarrow> store
      | Some um \<Rightarrow>
          (if um = [] then store
           else
             (case parse_override_command cfg um of
                None \<Rightarrow> store
              | Some Cancel \<Rightarrow> fst (cancel_complexity_override store session_id)
              | Some (SetOverride mn cx ttl) \<Rightarrow> set_complexity_override w store session_id cx ttl)))"

section \<open>Classification cache and classifier\<close>

definition CACHE_TTL_SECONDS :: int where
  "CACHE_TTL_SECONDS = 3600"

definition MAX_CACHE_SIZE :: nat where
  "MAX_CACHE_SIZE = 1000"

text \<open>
  The dictionary of \<^verbatim>\<open>ClassificationCache\<close>, in insertion order: a key, the classification and
  the time it was stored.
\<close>

type_synonym cls_cache = "(string \<times> (string \<times> int)) list"

fun dict_update :: "string \<Rightarrow> 'v \<Rightarrow> (string \<times> 'v) list \<Rightarrow> (string \<times> 'v) list" where
  "dict_update k v [] = [(k, v)]"
| "dict_update k v ((k', v') # xs) =
     (if k = k' then (k, v) # xs else (k', v') # dict_update k v xs)"

definition dict_delete :: "string \<Rightarrow> (string \<times> 'v) list \<Rightarrow> (string \<times> 'v) list" where
  "dict_delete k xs = filter (\<lambda>(k', v). k' \<noteq> k) xs"

text \<open>\<^verbatim>\<open>min(self.cache.keys(), key=lambda k: self.cache[k][1])\<close>: the first key of the least time.\<close>

fun oldest_key :: "cls_cache \<Rightarrow> string option" where
  "oldest_key [] = None"
| "oldest_key ((k, (c, ts)) # xs) =
     (case oldest_key xs of
        None \<Rightarrow> Some k
      | Some k' \<Rightarrow> (case map_of xs k' of
                      Some (c', ts') \<Rightarrow> (if ts' < ts then Some k' else Some k)
                    | None \<Rightarrow> Some k))"

definition hash_prompt :: "config \<Rightarrow> string \<Rightarrow> string" where
  "hash_prompt cfg prompt = md5_hex cfg (take 500 prompt)"

definition cache_get :: "config \<Rightarrow> world \<Rightarrow> cls_cache \<Rightarrow> string \<Rightarrow> cls_cache \<times> string option" where
  "cache_get cfg w cache prompt =
     (let key = hash_prompt cfg prompt in
      case map_of cache key of
        None \<Rightarrow> (cache, None)
      | Some (classification, timestamp) \<Rightarrow>
          (if now_cache_get w - timestamp < CACHE_TTL_SECONDS then (cache, Some classification)
           else (dict_delete key cache, None)))"

definition cache_set :: "config \<Rightarrow> world \<Rightarrow> cls_cache \<Rightarrow> string \<Rightarrow> string \<Rightarrow> cls_cache" where
  "cache_set cfg w cache prompt classification =
     (let cache1 = (if length cache \<ge> MAX_CACHE_SIZE
                    then (case oldest_key cache of Some k \<Rightarrow> dict_delete k cache | None \<Rightarrow> cache)
                    else cache)
      in dict_update (hash_prompt cfg prompt) (classification, now_cache_set w) cache1)"

section \<open>Pipeline state\<close>

text \<open>
  The module-level stores that the hook reads and writes, and a trace of two effects: the
  prompts sent to the upstream classifier and the number of look-ups in the classification
  cache. The side cache is the \<^verbatim>\<open>DualCache\<close> handed to the hook.
\<close>

record session_info =
  s_repo :: pyval
  s_repo_root :: pyval
  s_expires :: int

record pstate =
  overrides :: override_store
  classification_cache :: cls_cache
  contract_cache :: "string \<rightharpoonup> contract"
  session_repo_cache :: "string \<rightharpoonup> session_info"
  side_cache :: "string \<rightharpoonup> (string \<times> string) list"
  classifier_calls :: "string list"
  cache_lookups :: nat

definition LEVELS :: "string list" where
  "LEVELS = [''SIMPLE'', ''MODERATE'', ''COMPLEX'']"

text \<open>The validation of the classifier's reply: the reply itself, the first level it holds, or SIMPLE.\<close>

definition validate_result :: "string \<Rightarrow> string" where
  "validate_result result =
     (if result \<in> set LEVELS then result
      else (case find (\<lambda>level. contains level result) LEVELS of
              Some level \<Rightarrow> level
            | None \<Rightarrow> ''SIMPLE''))"

text \<open>
  \<^verbatim>\<open>classify_with_haiku\<close>. The upstream call is \<open>acompletion\<close>, given the prompt as truncated to
  2000 characters (the request text is the fixed rubric around it); \<^verbatim>\<open>None\<close> is an exception.
\<close>

definition classify_with_haiku :: "config \<Rightarrow> world \<Rightarrow> pstate \<Rightarrow> string \<Rightarrow> pstate \<times> string" where
  "classify_with_haiku cfg w st prompt =
     (let (cache1, cached) = cache_get cfg w (classification_cache st) prompt;
          st1 = st\<lparr> classification_cache := cache1, cache_lookups := Suc (cache_lookups st) \<rparr>
      in if (case cached of None \<Rightarrow> False | Some c \<Rightarrow> c \<noteq> []) then (st1, the cached)
         else
           (let truncated_prompt = take 2000 prompt;
                st2 = st1\<lparr> classifier_calls := classifier_calls st1 @ [truncated_prompt] \<rparr>
            in case acompletion w truncated_prompt of
                 None \<Rightarrow> (st2, ''SIMPLE'')
               | Some reply \<Rightarrow>
                   (let result = validate_result (upper (strip reply))
                    in (st2\<lparr> classification_cache := cache_set cfg w cache1 prompt result \<rparr>,
                        result))))"

section \<open>Session identity\<close>

text \<open>\<^verbatim>\<open>s.split(sep, 1)\<close> for a non-empty separator: the parts around its first occurrence.\<close>

fun split_once :: "string \<Rightarrow> string \<Rightarrow> string \<Rightarrow> (string \<times> string) option" where
  "split_once sep front [] = None"
| "split_once sep front (c # cs) =
     (if startswith (c # cs) sep then Some (front, drop (length sep) (c # cs))
      else split_once sep (front @ [c]) cs)"

text \<open>\<^verbatim>\<open>_extract_session_id\<close>; the user id is a string where it is set.\<close>

definition extract_session_id :: "(string \<rightharpoonup> pyval) \<Rightarrow> string option" where
  "extract_session_id md =
     (case md ''user_id'' of
        Some (PStr user_id) \<Rightarrow>
          (case split_once ''account__session_'' [] user_id of
             Some (front, back) \<Rightarrow> Some back
           | None \<Rightarrow> None)
      | _ \<Rightarrow> None)"

section \<open>Classification and routing\<close>

definition MODEL_MAP :: "(string \<times> string) list" where
  "MODEL_MAP =
     [(''SIMPLE'', ''claude-haiku-4-5''), (''MODERATE'', ''claude-sonnet-4-5''),
      (''COMPLEX'', ''claude-opus-4-5'')]"

text \<open>\<^verbatim>\<open>MODEL_MAP.get(classification, "claude-haiku-4-5")\<close>.\<close>

definition selected_model :: "string \<Rightarrow> string" where
  "selected_model classification =
     (case map_of MODEL_MAP classification of Some m \<Rightarrow> m | None \<Rightarrow> ''claude-haiku-4-5'')"

text \<open>
  What lines 1925 to 1972 of the hook compute: the classification, whether an override was
  applied, and the seconds it has left.
\<close>

record routing =
  classification :: string
  override_applied :: bool
  override_remaining_seconds :: "int option"

definition classify_request ::
  "config \<Rightarrow> world \<Rightarrow> pstate \<Rightarrow> (string \<rightharpoonup> pyval) \<Rightarrow> string option \<Rightarrow> pstate \<times> routing" where
  "classify_request cfg w st md user_message =
     (let session_id = extract_session_id md;
          store1 = apply_override_command cfg w (overrides st) session_id user_message;
          (store2, active_override) = get_complexity_override w store1 session_id;
          st1 = st\<lparr> overrides := store2 \<rparr>
      in if (case active_override of None \<Rightarrow> False | Some c \<Rightarrow> c \<noteq> []) then
           (st1, \<lparr> classification = the active_override, override_applied = True,
                   override_remaining_seconds = get_override_remaining_seconds w store2 session_id \<rparr>)
         else if (case user_message of None \<Rightarrow> True | Some um \<Rightarrow> um = []) then
           (st1, \<lparr> classification = ''SIMPLE'', override_applied = False,
                   override_remaining_seconds = None \<rparr>)
         else if length (strip (the user_message)) < 20 then
           (st1, \<lparr> classification = ''SIMPLE'', override_applied = False,
                   override_remaining_seconds = None \<rparr>)
         else
           (let (st2, c) = classify_with_haiku cfg w st1 (the user_message)
            in (st2, \<lparr> classification = c, override_applied = False,
                       override_remaining_seconds = None \<rparr>)))"

section \<open>Repository context\<close>

definition truthy_opt :: "pyval option \<Rightarrow> bool" where
  "truthy_opt v = (case v of None \<Rightarrow> False | Some x \<Rightarrow> truthy x)"

text \<open>\<^verbatim>\<open>apply_repo_context\<close> of the hook, on the metadata dictionary: the new dictionary and \<^verbatim>\<open>applied\<close>.\<close>

definition apply_repo_context ::
  "(string \<rightharpoonup> pyval) \<Rightarrow> pyval option \<Rightarrow> pyval option \<Rightarrow> bool \<Rightarrow> (string \<rightharpoonup> pyval) \<times> bool" where
  "apply_repo_context md repo repo_root override =
     (if \<not> truthy_opt repo \<and> \<not> truthy_opt repo_root then (md, False)
      else
        (let set_repo = (truthy_opt repo \<and> (override \<or> \<not> get_truthy md ''repo''));
             md1 = (if set_repo then md(''repo'' \<mapsto> the repo) else md);
             set_root = (truthy_opt repo_root \<and> (override \<or> \<not> get_truthy md1 ''repo_root''));
             md2 = (if set_root then md1(''repo_root'' \<mapsto> the repo_root) else md1)
         in (md2, set_repo \<or> set_root)))"

text \<open>\<^verbatim>\<open>s.replace(pat, "")\<close> for a non-empty pattern; the counter is what is left to skip of a match.\<close>

fun remove_all :: "nat \<Rightarrow> string \<Rightarrow> string \<Rightarrow> string" where
  "remove_all skip pat [] = []"
| "remove_all skip pat (c # cs) =
     (if skip > 0 then remove_all (skip - 1) pat cs
      else if startswith (c # cs) pat then remove_all (length pat - 1) pat cs
      else c # remove_all 0 pat cs)"

text \<open>\<^verbatim>\<open>s.split()\<close>: the maximal runs of characters that are not whitespace.\<close>

fun split_ws :: "string \<Rightarrow> string \<Rightarrow> string list" where
  "split_ws cur [] = (if cur = [] then [] else [cur])"
| "split_ws cur (c # cs) =
     (if is_space c then (if cur = [] then split_ws [] cs else cur # split_ws [] cs)
      else split_ws (cur @ [c]) cs)"

text \<open>The loop over the parts of one marker text: a later part overwrites an earlier one.\<close>

definition scan_parts :: "string list \<Rightarrow> string option \<times> string option" where
  "scan_parts parts =
     foldl (\<lambda>(repo, repo_root) part.
              if startswith part ''repo='' then (Some (strip (drop 5 part)), repo_root)
              else if startswith part ''repo_root='' then (repo, Some (strip (drop 10 part)))
              else (repo, repo_root))
       (None, None) parts"

fun first_context :: "string list \<Rightarrow> (string \<times> string) option" where
  "first_context [] = None"
| "first_context (text # texts) =
     (if \<not> contains ''LITELLM_CONTEXT'' text then first_context texts
      else
        (case scan_parts (split_ws [] (remove_all 0 ''-->'' (remove_all 0 ''<!--'' text))) of
           (Some repo, Some repo_root) \<Rightarrow>
             (if repo \<noteq> [] \<and> repo_root \<noteq> [] then Some (repo, repo_root) else first_context texts)
         | _ \<Rightarrow> first_context texts))"

text \<open>\<^verbatim>\<open>extract_repo_context_from_system\<close>.\<close>

definition extract_repo_context_from_system :: "request \<Rightarrow> (string \<times> string) option" where
  "extract_repo_context_from_system data =
     first_context
       ((case system data of Some s \<Rightarrow> [s] | None \<Rightarrow> [])
        @ concat (map (\<lambda>m. if role m \<in> {''system'', ''user''}
                            then (case content m of
                                    CStr c \<Rightarrow> (if contains ''LITELLM_CONTEXT'' c then [c] else [])
                                  | _ \<Rightarrow> [])
                            else [])
                   (messages data)))"

text \<open>
  The session store in memory. The history dictionary, the session files that are written and the
  repository registry are never read back by the stages below, and are left out of the state.
\<close>

definition store_session_repo_context ::
  "config \<Rightarrow> world \<Rightarrow> (string \<rightharpoonup> session_info) \<Rightarrow> string option \<Rightarrow> pyval option \<Rightarrow> pyval option
     \<Rightarrow> (string \<rightharpoonup> session_info)" where
  "store_session_repo_context cfg w cache session_id repo repo_root =
     (if \<not> session_ok session_id \<or> \<not> truthy_opt repo then cache
      else
        (let cache1 = cache(the session_id \<mapsto>
                        \<lparr> s_repo = the repo,
                          s_repo_root = (case repo_root of Some r \<Rightarrow> r | None \<Rightarrow> PNone),
                          s_expires = now_session w + SESSION_CACHE_TTL_SECONDS cfg \<rparr>)
         in (\<lambda>sid. case cache1 sid of
                      None \<Rightarrow> None
                    | Some info \<Rightarrow> (if s_expires info < now_session w then None else Some info))))"

definition get_session_repo_context ::
  "world \<Rightarrow> (string \<rightharpoonup> session_info) \<Rightarrow> string option
     \<Rightarrow> (string \<rightharpoonup> session_info) \<times> session_info option" where
  "get_session_repo_context w cache session_id =
     (if \<not> session_ok session_id then (cache, None)
      else
        (case cache (the session_id) of
           None \<Rightarrow> (cache, None)
         | Some info \<Rightarrow>
             (if s_expires info < now_session w then (cache((the session_id) := None), None)
              else (cache, Some info))))"

text \<open>
  Lines 1611 to 1700 of the hook: the request id, the build id, and the repository context from
  the headers, the metadata, \<^verbatim>\<open>CLAUDE_METADATA\<close>, the system-prompt marker and the session store,
  in that order.
\<close>

definition resolved_metadata :: "world \<Rightarrow> request \<Rightarrow> (string \<rightharpoonup> pyval)" where
  "resolved_metadata w data =
     (let md0 = metadata data;
          request_id = (if get_truthy md0 ''request_id'' then the (md0 ''request_id'')
                        else PStr (take 12 (uuid_hex w)));
          md1 = md0(''request_id'' \<mapsto> request_id);
          md2 = (case md1 ''router_build_id'' of
                   None \<Rightarrow> md1(''router_build_id'' \<mapsto> PStr (ROUTER_BUILD_ID w))
                 | Some b \<Rightarrow> md1);
          md3 = lp_metadata data ++ md2;
          md4 = fst (apply_repo_context md3
                       (map_option PStr (headers data ''x-litellm-repo''))
                       (map_option PStr (headers data ''x-litellm-repo-root'')) True);
          md5 = fst (apply_repo_context md4 (md4 ''repo'') (md4 ''repo_root'') False);
          md6 = (case CLAUDE_METADATA w of
                   None \<Rightarrow> md5
                 | Some cm \<Rightarrow>
                     fst (apply_repo_context (cm ++ md5) (cm ''repo'') (cm ''repo_root'') False))
      in case extract_repo_context_from_system data of
           None \<Rightarrow> md6
         | Some (repo, repo_root) \<Rightarrow>
             fst (apply_repo_context md6 (Some (PStr repo)) (Some (PStr repo_root)) False))"

text \<open>The session store comes last: the cache in memory, then the session file.\<close>

definition resolve_context :: "config \<Rightarrow> world \<Rightarrow> pstate \<Rightarrow> request \<Rightarrow> pstate \<times> request" where
  "resolve_context cfg w st data =
     (let md7 = resolved_metadata w data;
          session_id = extract_session_id md7;
          sessions1 = fst (get_session_repo_context w (session_repo_cache st) session_id);
          session_ctx = snd (get_session_repo_context w (session_repo_cache st) session_id)
      in case session_ctx of
           Some info \<Rightarrow>
             (st\<lparr> session_repo_cache := sessions1 \<rparr>,
              data\<lparr> metadata := fst (apply_repo_context md7 (Some (s_repo info))
                                        (Some (s_repo_root info)) False) \<rparr>)
         | None \<Rightarrow>
             (if \<not> session_ok session_id then
                (st\<lparr> session_repo_cache := sessions1 \<rparr>, data\<lparr> metadata := md7 \<rparr>)
              else
                (case load_session_file w (the session_id) of
                   None \<Rightarrow> (st\<lparr> session_repo_cache := sessions1 \<rparr>, data\<lparr> metadata := md7 \<rparr>)
                 | Some (repo, repo_root) \<Rightarrow>
                     (st\<lparr> session_repo_cache :=
                          (if snd (apply_repo_context md7 (Some (PStr repo)) (Some (PStr repo_root)) False)
                           then store_session_repo_context cfg w sessions1 session_id
                                  (Some (PStr repo)) (Some (PStr repo_root))
                           else sessions1) \<rparr>,
                      data\<lparr> metadata :=
                          fst (apply_repo_context md7 (Some (PStr repo)) (Some (PStr repo_root))
                                 False) \<rparr>))))"

text \<open>
  \<^verbatim>\<open>get_repo_root_from_request\<close>, called once the request id is in the top-level metadata, so that
  this dictionary is the one read. A root that is not a string, or a path that cannot be
  resolved, raises inside the \<^verbatim>\<open>try\<close> and gives \<^verbatim>\<open>None\<close>; what was written before stays.
\<close>

definition get_repo_root_from_request :: "world \<Rightarrow> request \<Rightarrow> request \<times> string option" where
  "get_repo_root_from_request w data =
     (let md = metadata data;
          repo_root = md ''repo_root'';
          auth_header = (case headers data ''authorization'' of
                           Some a \<Rightarrow> (if a \<noteq> [] then Some a else headers data ''Authorization'')
                         | None \<Rightarrow> headers data ''Authorization'');
          data1 =
            (case auth_header of
               None \<Rightarrow> data
             | Some a \<Rightarrow>
                 (if a = [] then data
                  else
                    (let (scheme, token) = (case split_once '' '' [] a of
                                              Some (s, t) \<Rightarrow> (strip s, t)
                                            | None \<Rightarrow> ([], a))
                     in case split_once ''::'' [] token of
                          None \<Rightarrow> data
                        | Some (potential_repo, real_token) \<Rightarrow>
                            (let data' =
                                   (if potential_repo \<noteq> []
                                    then data\<lparr> metadata :=
                                           md(''repo'' \<mapsto> (if get_truthy md ''repo''
                                                             then the (md ''repo'')
                                                             else PStr potential_repo)) \<rparr>
                                    else data)
                             in if real_token \<noteq> []
                                then data'\<lparr> headers :=
                                       (headers data')(''authorization'' \<mapsto>
                                          (if scheme \<noteq> [] then scheme @ '' '' @ real_token
                                           else real_token)) \<rparr>
                                else data'))))
      in (data1,
          (case repo_root of
             Some (PStr p) \<Rightarrow> (if p \<noteq> [] then resolve_path w p else None)
           | _ \<Rightarrow> None)))"

section \<open>The pre-call hook\<close>

definition bootstrap_response :: response where
  "bootstrap_response =
     \<lparr> resp_id = ''repo_bootstrap'', resp_role = ''assistant'',
       resp_content = ''Repository registered successfully.'', finish_reason = ''stop'' \<rparr>"

text \<open>The fast path of a \<^verbatim>\<open>repo_bootstrap\<close> request (lines 1719 to 1757).\<close>

definition bootstrap_stage :: "config \<Rightarrow> world \<Rightarrow> pstate \<Rightarrow> request \<Rightarrow> pstate \<times> request" where
  "bootstrap_stage cfg w st data =
     (let (data1, repo_root_boot) = get_repo_root_from_request w data;
          data2 = (if (case model data1 of None \<Rightarrow> True | Some m \<Rightarrow> m = [])
                   then data1\<lparr> model := Some ''claude-haiku-4-5'' \<rparr> else data1);
          data3 = (case repo_root_boot of
                     Some r \<Rightarrow> data2\<lparr> metadata := (metadata data2)(''repo_root'' \<mapsto> PStr r) \<rparr>
                   | None \<Rightarrow> data2);
          md = metadata data3
      in (st\<lparr> session_repo_cache :=
               store_session_repo_context cfg w (session_repo_cache st) (extract_session_id md)
                 (md ''repo'') (md ''repo_root'') \<rparr>,
          data3\<lparr> response := Some bootstrap_response, skip_llm_call := True,
                  do_not_route := True \<rparr>))"

text \<open>The text of the synthetic refusal of a documentation-policy violation.\<close>

definition policy_refusal_message :: "string \<Rightarrow> string \<Rightarrow> string" where
  "policy_refusal_message contract_hash violation_reason =
     ''This request violates the documentation policy enforced by the runtime AI contract (hash: ''
     @ contract_hash @ '').'' @ nl @ nl @ violation_reason @ nl @ nl
     @ ''To comply with the policy, please update README.md or AGENTS.md instead of creating new documentation files.''"

definition policy_violation_response :: "string \<Rightarrow> string \<Rightarrow> response" where
  "policy_violation_response contract_hash violation_reason =
     \<lparr> resp_id = ''policy_violation'', resp_role = ''assistant'',
       resp_content = policy_refusal_message contract_hash violation_reason,
       finish_reason = ''policy_violation'' \<rparr>"

text \<open>Lines 1845 to 1877: the request as it is returned on a violation.\<close>

definition refuse_policy_violation :: "request \<Rightarrow> contract \<Rightarrow> string \<Rightarrow> string \<Rightarrow> request" where
  "refuse_policy_violation data c violation_reason original_model_for_refusal =
     data\<lparr> metadata := (metadata data)(''policy_violation'' \<mapsto> PStr ''true'',
                                         ''contract_hash'' \<mapsto> PStr (hash c),
                                         ''violation_reason'' \<mapsto> PStr (take 200 violation_reason)),
           response := Some (policy_violation_response (hash c) violation_reason),
           model := Some original_model_for_refusal,
           skip_llm_call := True, do_not_route := True \<rparr>"

text \<open>Lines 1887 to 1917: the enforcement system message, with the ledger reminder in front when there is one.\<close>

definition inject_enforcement :: "request \<Rightarrow> contract \<Rightarrow> string option \<Rightarrow> request" where
  "inject_enforcement data c ledger_reminder =
     (let filtered_messages = filter (\<lambda>m. role m \<noteq> ''system'') (messages data);
          enforcement_message =
            (case ledger_reminder of
               Some r \<Rightarrow> (if r \<noteq> [] then r @ nl @ nl @ generate_enforcement_system_message (hash c)
                          else generate_enforcement_system_message (hash c))
             | None \<Rightarrow> generate_enforcement_system_message (hash c))
      in data\<lparr> messages := filtered_messages,
               system := Some (case system data of
                                 Some existing_system \<Rightarrow>
                                   (if existing_system \<noteq> []
                                    then enforcement_message @ nl @ nl @ ''---'' @ nl @ nl @ existing_system
                                    else enforcement_message)
                               | None \<Rightarrow> enforcement_message) \<rparr>)"

text \<open>\<^verbatim>\<open>Path(p).name\<close>: the last component that is neither empty nor a dot.\<close>

fun split_on :: "char \<Rightarrow> string \<Rightarrow> string \<Rightarrow> string list" where
  "split_on sep cur [] = [cur]"
| "split_on sep cur (c # cs) = (if c = sep then cur # split_on sep [] cs else split_on sep (cur @ [c]) cs)"

definition path_name :: "string \<Rightarrow> string" where
  "path_name p =
     (case rev (filter (\<lambda>c. c \<noteq> [] \<and> c \<noteq> ''.'') (split_on (CHR ''/'') [] p)) of
        [] \<Rightarrow> []
      | n # ns \<Rightarrow> n)"

definition environment_value :: "(string \<rightharpoonup> pyval) \<Rightarrow> string" where
  "environment_value md =
     (if get_truthy md ''repo'' then py_str (the (md ''repo''))
      else
        (case md ''repo_root'' of
           Some (PStr p) \<Rightarrow> (if p = [] \<or> path_name p = [] then ''unscoped'' else path_name p)
         | _ \<Rightarrow> ''unscoped''))"

text \<open>\<^verbatim>\<open>custom_metadata\<close> after the sanitizing loop: every value is its \<^verbatim>\<open>str\<close>, cut at 200 characters.\<close>

definition sanitized_metadata ::
  "(string \<rightharpoonup> pyval) \<Rightarrow> routing \<Rightarrow> string \<Rightarrow> string option \<Rightarrow> contract option
     \<Rightarrow> string option \<Rightarrow> string option \<Rightarrow> (string \<times> string) list" where
  "sanitized_metadata md rt original_model user_message c ledger_reminder ledger_alert =
     map (\<lambda>(k, v). (k, take 200 v))
       [(''environment'', environment_value md),
        (''complexity_classification'', classification rt),
        (''original_model_requested'', original_model),
        (''routed_to_model'', selected_model (classification rt)),
        (''router'', ''complexity_router_v2''),
        (''prompt_length'', show_int (int (case user_message of Some um \<Rightarrow> length um | None \<Rightarrow> 0))),
        (''repo'', (if get_truthy md ''repo'' then py_str (the (md ''repo'')) else ''unscoped'')),
        (''repo_root'', (case md ''repo_root'' of Some v \<Rightarrow> py_str v | None \<Rightarrow> [])),
        (''gen_ai_system'', ''anthropic''),
        (''gen_ai_operation'', ''chat''),
        (''contract_hash'', (case c of Some k \<Rightarrow> hash k | None \<Rightarrow> [])),
        (''policy_enforced'',
           (if (case c of Some k \<Rightarrow> hash k \<noteq> [] | None \<Rightarrow> False) then ''true'' else ''false'')),
        (''request_id'', (case md ''request_id'' of Some v \<Rightarrow> py_str v | None \<Rightarrow> [])),
        (''trace_environment'', environment_value md),
        (''ledger_alert'',
           (case ledger_alert of Some a \<Rightarrow> (if a \<noteq> [] then a else ''none'') | None \<Rightarrow> ''none'')),
        (''ledger_reminder_active'',
           (if (case ledger_reminder of Some r \<Rightarrow> r \<noteq> [] | None \<Rightarrow> False)
            then ''true'' else ''false'')),
        (''complexity_override_active'', (if override_applied rt then ''true'' else ''false'')),
        (''complexity_override_remaining_seconds'',
           show_int (case override_remaining_seconds rt of Some s \<Rightarrow> s | None \<Rightarrow> 0))]"

text \<open>The message that gives the key of the side cache (lines 2056 to 2074).\<close>

fun user_message_for_key :: "message list \<Rightarrow> string option" where
  "user_message_for_key [] = None"
| "user_message_for_key (m # ms) =
     (if role m = ''user'' then
        (case content m of
           CStr s \<Rightarrow> Some s
         | CList bs \<Rightarrow>
             (if user_text_parts bs \<noteq> [] then Some (join '' '' (user_text_parts bs))
              else user_message_for_key ms)
         | _ \<Rightarrow> user_message_for_key ms)
      else user_message_for_key ms)"

text \<open>
  Lines 1919 to 2090: classification, the rewrite of the model, the metadata bundle and the side
  cache. \<open>c\<close> is the contract when the request has a repository root.
\<close>

definition route_stage ::
  "config \<Rightarrow> world \<Rightarrow> pstate \<Rightarrow> request \<Rightarrow> string option \<Rightarrow> contract option
     \<Rightarrow> string option \<Rightarrow> string option \<Rightarrow> pstate \<times> request" where
  "route_stage cfg w st data user_message c ledger_reminder ledger_alert =
     (let (st1, rt) = classify_request cfg w st (metadata data) user_message;
          original_model = (case model data of Some m \<Rightarrow> m | None \<Rightarrow> ''unknown'');
          data1 = data\<lparr> model := Some (selected_model (classification rt)) \<rparr>;
          sm = sanitized_metadata (metadata data1) rt original_model user_message c
                 ledger_reminder ledger_alert;
          data2 = data1\<lparr> metadata := metadata data1 ++ map_of (map (\<lambda>(k, v). (k, PStr v)) sm) \<rparr>
      in case user_message_for_key (rev (messages data2)) of
           None \<Rightarrow> (st1, data2)
         | Some key_message \<Rightarrow>
             (if key_message = [] then (st1, data2)
              else
                (st1\<lparr> side_cache :=
                        (side_cache st1)(''router_metadata:'' @ take 16 (md5_hex cfg (take 200 key_message))
                                          \<mapsto> sm) \<rparr>,
                 data2)))"

text \<open>
  Lines 1813 to 1917: the contract is loaded when the request has a repository root; a violation
  in the last user message ends the hook with the synthetic refusal; otherwise the enforcement
  message is injected and the request is routed.
\<close>

definition policy_stage ::
  "config \<Rightarrow> world \<Rightarrow> pstate \<Rightarrow> request \<Rightarrow> string option \<Rightarrow> string option \<Rightarrow> string
     \<Rightarrow> string option \<Rightarrow> string option \<Rightarrow> pstate \<times> request" where
  "policy_stage cfg w st data repo_root user_message requested_model ledger_reminder ledger_alert =
     (case repo_root of
        None \<Rightarrow> route_stage cfg w st data user_message None ledger_reminder ledger_alert
      | Some rt \<Rightarrow>
          (let (contracts, c) = get_policy_contract cfg w (contract_cache st) rt;
               st1 = st\<lparr> contract_cache := contracts \<rparr>;
               data1 = data\<lparr> metadata := (metadata data)(''repo_root'' \<mapsto> PStr rt) \<rparr>;
               violation_reason =
                 (case user_message of
                    None \<Rightarrow> None
                  | Some um \<Rightarrow> (if um = [] then None else detect_policy_violation um))
           in case violation_reason of
                Some reason \<Rightarrow> (st1, refuse_policy_violation data1 c reason requested_model)
              | None \<Rightarrow>
                  route_stage cfg w st1
                    (if hash c \<noteq> [] then inject_enforcement data1 c ledger_reminder else data1)
                    user_message (Some c) ledger_reminder ledger_alert))"

definition is_classification_call :: "request \<Rightarrow> bool" where
  "is_classification_call data =
     (metadata data ''request_type'' = Some (PStr ''classification'')
      \<or> lp_metadata data ''request_type'' = Some (PStr ''classification''))"

text \<open>Lines 1706 and 1707: the alert reason, when there is one, goes into the metadata.\<close>

definition stamp_ledger_alert :: "request \<Rightarrow> string option \<Rightarrow> request" where
  "stamp_ledger_alert data ledger_alert =
     (case ledger_alert of
        Some a \<Rightarrow> (if a \<noteq> [] then data\<lparr> metadata := (metadata data)(''ledger_alert'' \<mapsto> PStr a) \<rparr>
                   else data)
      | None \<Rightarrow> data)"

text \<open>Lines 1705 to 1811: from the ledger reminder to the idempotency guard, then the policy stage.\<close>

definition after_guard ::
  "config \<Rightarrow> world \<Rightarrow> pstate \<Rightarrow> string \<Rightarrow> request \<Rightarrow> pstate \<times> request" where
  "after_guard cfg w st call_type data =
     (let (ledger_reminder, ledger_alert) =
            build_ledger_reminder cfg (metadata data ''repo'') (metadata data);
          data1 = stamp_ledger_alert data ledger_alert
      in if metadata data1 ''request_type'' = Some (PStr ''repo_bootstrap'')
         then bootstrap_stage cfg w st data1
         else
           (let (data2, repo_root) = get_repo_root_from_request w data1
            in if call_type \<notin> set [''completion'', ''acompletion'', ''anthropic_messages'']
               then (st, data2)
               else if is_classification_call data2 then (st, data2)
               else if metadata data2 ''policy_violation'' = Some (PStr ''true'') then (st, data2)
               else policy_stage cfg w st data2 repo_root (extract_user_message (messages data2))
                      (case model data2 of Some m \<Rightarrow> m | None \<Rightarrow> [])
                      ledger_reminder ledger_alert))"

text \<open>\<^verbatim>\<open>ComplexityRouter.async_pre_call_hook\<close>.\<close>

definition async_pre_call_hook ::
  "config \<Rightarrow> world \<Rightarrow> pstate \<Rightarrow> string \<Rightarrow> request \<Rightarrow> pstate \<times> request" where
  "async_pre_call_hook cfg w st call_type data =
     (let (st1, data1) = resolve_context cfg w st data;
          (refused, data2) = apply_context_exhaustion_protection cfg data1
      in if refused then (st1, data2) else after_guard cfg w st1 call_type data2)"

section \<open>An environment and requests for examples\<close>

text \<open>
  No file exists, every path resolves to itself, the upstream classifier always answers
  MODERATE, and the clock moves on by a second between the places that read it.
\<close>

definition example_world :: world where
  "example_world =
     \<lparr> read_file = (\<lambda>p. None), resolve_path = (\<lambda>p. Some p),
       acompletion = (\<lambda>p. Some ''MODERATE''), CLAUDE_METADATA = None,
       uuid_hex = ''0123456789abcdef0123456789abcdef'', ROUTER_BUILD_ID = ''0a1b2c3d4e5f'',
       load_session_file = (\<lambda>s. None), now_session = 1000, now_set = 1000, now_get = 1001,
       now_remaining = 1001, now_cache_get = 1001, now_cache_set = 1002 \<rparr>"

definition empty_state :: pstate where
  "empty_state =
     \<lparr> overrides = Map.empty, classification_cache = [], contract_cache = Map.empty,
       session_repo_cache = Map.empty, side_cache = Map.empty, classifier_calls = [],
       cache_lookups = 0 \<rparr>"

text \<open>A request for model X with the given messages and metadata, and nothing else.\<close>

definition request_of :: "message list \<Rightarrow> (string \<times> pyval) list \<Rightarrow> request" where
  "request_of msgs md =
     \<lparr> model = Some ''X'', messages = msgs, system = None, metadata = map_of md,
       headers = Map.empty, lp_metadata = Map.empty, response = None, skip_llm_call = False,
       do_not_route = False \<rparr>"

definition example_config :: config where
  "example_config = default_config (\<lambda>s. s) (\<lambda>s. s)"



text \<open>
  What an example looks at in the result of the hook: the model, the first 40 characters of the
  system field, the finish reason of an attached response, whether both skip-upstream flags are
  set, the metadata under the given keys, and the trace of classifier calls and cache look-ups.
\<close>

record observation =
  seen_model :: "string option"
  seen_system_head :: "string option"
  seen_finish_reason :: "string option"
  seen_skip :: bool
  seen_metadata :: "pyval option list"
  seen_classifier_calls :: "string list"
  seen_cache_lookups :: nat

definition observe :: "string list \<Rightarrow> pstate \<times> request \<Rightarrow> observation" where
  "observe keys r =
     \<lparr> seen_model = model (snd r),
       seen_system_head = map_option (take 40) (system (snd r)),
       seen_finish_reason = map_option finish_reason (response (snd r)),
       seen_skip = (skip_llm_call (snd r) \<and> do_not_route (snd r)),
       seen_metadata = map (metadata (snd r)) keys,
       seen_classifier_calls = classifier_calls (fst r),
       seen_cache_lookups = cache_lookups (fst r) \<rparr>"

text \<open>The characters of a message that are not whitespace, counted wherever they stand.\<close>

definition non_whitespace_count :: "string \<Rightarrow> nat" where
  "non_whitespace_count s = length (filter (\<lambda>c. \<not> is_space c) s)"

text \<open>A state in which session abc holds an override to COMPLEX that expires at 5000.\<close>

definition state_with_override :: pstate where
  "state_with_override =
     empty_state\<lparr> overrides :=
       [''abc'' \<mapsto> \<lparr> complexity = ''COMPLEX'', expires = 5000, created = 900, ttl_minutes = 60 \<rparr>] \<rparr>"

definition session_request :: "string \<Rightarrow> request" where
  "session_request text =
     request_of [msg ''user'' text] [(''user_id'', PStr ''user_1_account__session_abc'')]"

text \<open>A request that carries a repository root and no repository name.\<close>

definition root_only_request :: request where
  "root_only_request =
     request_of [msg ''user'' ''please tell me everything about the weather'']
       [(''repo_root'', PStr ''/tmp/acme'')]"


text \<open>The classifier's own request, tagged in its metadata.\<close>

definition classification_request :: request where
  "classification_request =
     request_of [msg ''user'' ''hi''] [(''request_type'', PStr ''classification'')]"

text \<open>A tagged request with three system messages of 6 tokens each.\<close>

definition large_classification_request :: request where
  "large_classification_request =
     request_of [msg ''system'' ''aaaaaaaaaaaaaaaaaaaaaaaa'', msg ''system'' ''bbbbbbbbbbbbbbbbbbbbbbbb'',
                 msg ''system'' ''cccccccccccccccccccccccc'']
       [(''request_type'', PStr ''classification'')]"

section \<open>The trimming pass\<close>

lemma removal_loop_prefix:
  "removal_loop soft tot cs = (r, t) \<Longrightarrow>
     r = map fst (take (length r) cs) \<and>
     t = tot - sum_list (map snd (take (length r) cs)) \<and>
     (t \<le> soft \<or> length r = length cs) \<and>
     (\<forall>j<length r. tot - sum_list (map snd (take j cs)) > soft)"
proof (induction soft tot cs arbitrary: r t rule: removal_loop.induct)
  case (1 soft tot)
  then show ?case by simp
next
  case (2 soft tot i cost cs)
  show ?case
  proof (cases "tot \<le> soft")
    case True
    with 2 show ?thesis by simp
  next
    case False
    obtain r' t' where rt: "removal_loop soft (tot - cost) cs = (r', t')"
      by (cases "removal_loop soft (tot - cost) cs")
    with 2(2) False have r: "r = i # r'" and t: "t = t'" by simp_all
    note ih = 2(1)[OF False rt]
    have "\<forall>j<length r. tot - sum_list (map snd (take j ((i, cost) # cs))) > soft"
    proof (intro allI impI)
      fix j assume "j < length r"
      show "tot - sum_list (map snd (take j ((i, cost) # cs))) > soft"
      proof (cases j)
        case 0
        with False show ?thesis by simp
      next
        case (Suc j')
        with \<open>j < length r\<close> r have "j' < length r'" by simp
        with ih have "tot - cost - sum_list (map snd (take j' cs)) > soft" by blast
        with Suc show ?thesis by simp
      qed
    qed
    with ih r t show ?thesis by auto
  qed
qed

lemma enumerate_filter_nths:
  "map snd (filter (\<lambda>(i, m). P i) (enumerate 0 xs)) = nths xs {i. P i}"
proof -
  have "enumerate 0 xs = map (\<lambda>(a, b). (b, a)) (zip xs [0..<length xs])"
    by (simp add: enumerate_eq_zip zip_commute[of "[0..<length xs]" xs])
  then show ?thesis
    by (simp add: nths_def filter_map comp_def case_prod_beta)
qed

lemma remove_indices_nths: "remove_indices r msgs = nths msgs {i. i \<notin> set r}"
  unfolding remove_indices_def by (rule enumerate_filter_nths)

lemma last_user_from_None:
  "last_user_from n ms = None \<longleftrightarrow> (\<forall>m \<in> set ms. role m \<noteq> ''user'')"
proof (induction ms arbitrary: n)
  case Nil
  then show ?case by simp
next
  case (Cons m ms)
  show ?case
    using Cons.IH[of "Suc n"] by (cases "last_user_from (Suc n) ms") auto
qed

lemma last_user_from_Some:
  "last_user_from n ms = Some j \<Longrightarrow>
     n \<le> j \<and> j < n + length ms \<and> role (ms ! (j - n)) = ''user'' \<and>
      (\<forall>k. j < k \<and> k < n + length ms \<longrightarrow> role (ms ! (k - n)) \<noteq> ''user'')"
proof (induction ms arbitrary: n)
  case Nil
  then show ?case by simp
next
  case (Cons m ms)
  show ?case
  proof (cases "last_user_from (Suc n) ms")
    case None
    with Cons.prems have j: "j = n" and u: "role m = ''user''"
      by (auto split: if_splits)
    from None have "\<forall>x \<in> set ms. role x \<noteq> ''user''"
      by (simp add: last_user_from_None)
    then have "\<forall>k. n < k \<and> k < n + length (m # ms) \<longrightarrow> role ((m # ms) ! (k - n)) \<noteq> ''user''"
      by (auto simp: nth_Cons split: nat.splits)
    with j u show ?thesis by simp
  next
    case (Some j')
    with Cons.prems have j: "j' = j" by simp
    from Cons.IH[of "Suc n"] Some j
    have ih: "Suc n \<le> j" "j < Suc n + length ms" "role (ms ! (j - Suc n)) = ''user''"
      "\<forall>k. j < k \<and> k < Suc n + length ms \<longrightarrow> role (ms ! (k - Suc n)) \<noteq> ''user''"
      by auto
    from ih(1) have jn: "j - n = Suc (j - Suc n)" by arith
    have a: "role ((m # ms) ! (j - n)) = ''user''"
      using ih(3) by (simp add: jn)
    have b: "\<forall>k. j < k \<and> k < n + length (m # ms) \<longrightarrow> role ((m # ms) ! (k - n)) \<noteq> ''user''"
    proof (intro allI impI)
      fix k assume k: "j < k \<and> k < n + length (m # ms)"
      then have "k - n = Suc (k - Suc n)" using ih(1) by arith
      moreover from k ih(4) have "role (ms ! (k - Suc n)) \<noteq> ''user''" by simp
      ultimately show "role ((m # ms) ! (k - n)) \<noteq> ''user''" by simp
    qed
    from ih a b show ?thesis by simp
  qed
qed

text \<open>\<open>last_user_idx\<close> is the index of the last message of role \<^verbatim>\<open>user\<close>.\<close>

lemma last_user_idx_Some:
  "last_user_idx msgs = Some j \<Longrightarrow>
     j < length msgs \<and> role (msgs ! j) = ''user'' \<and>
     (\<forall>k. j < k \<and> k < length msgs \<longrightarrow> role (msgs ! k) \<noteq> ''user'')"
  unfolding last_user_idx_def by (drule last_user_from_Some) simp

lemma candidates_indices:
  "set (map fst (candidates msgs)) =
     {i. i < length msgs \<and> role (msgs ! i) \<noteq> ''system'' \<and> last_user_idx msgs \<noteq> Some i}"
  by (auto simp: candidates_def in_set_enumerate_eq image_iff)

section \<open>The escape hatch of the violation detector\<close>

lemma pattern_loop_allowed:
  "mentions_allowed_file ml \<Longrightarrow> pattern_loop ml ps = None"
  by (induction ps) auto

lemma indicator_loop_allowed:
  "mentions_allowed_file ml \<Longrightarrow> indicator_loop ml folder inds = None"
  by (induction inds) auto

lemma folder_loop_allowed:
  "mentions_allowed_file ml \<Longrightarrow> folder_loop ml fs = None"
  by (induction fs) (auto simp: indicator_loop_allowed)

text \<open>
  C7. A user message that names \<^verbatim>\<open>readme.md\<close> or \<^verbatim>\<open>agents.md\<close>, in any letter case, is never a
  violation for \<^verbatim>\<open>detect_policy_violation\<close>, whatever violation phrase, documentation folder or
  creation verb it also holds.
\<close>

theorem detect_policy_violation_escape_hatch:
  assumes "contains ''readme.md'' (lower user_message) \<or> contains ''agents.md'' (lower user_message)"
  shows "detect_policy_violation user_message = None"
proof -
  from assms have "mentions_allowed_file (lower user_message)"
    by (simp add: mentions_allowed_file_def)
  then show ?thesis
    by (simp add: detect_policy_violation_def pattern_loop_allowed folder_loop_allowed)
qed

text \<open>The message of the witness holds a listed phrase, a folder with a creation verb, and README.md.\<close>

theorem detect_policy_violation_escape_hatch_witness:
  "contains ''create a new markdown'' (lower ''Create a new markdown file in docs/ from README.md'')
   \<and> contains ''docs/'' (lower ''Create a new markdown file in docs/ from README.md'')
   \<and> contains ''readme.md'' (lower ''Create a new markdown file in docs/ from README.md'')
   \<and> detect_policy_violation ''Create a new markdown file in docs/ from README.md'' = None"
proof -
  have h: "contains ''readme.md'' (lower ''Create a new markdown file in docs/ from README.md'')"
    by code_simp
  have a: "contains ''create a new markdown'' (lower ''Create a new markdown file in docs/ from README.md'')"
    by code_simp
  have b: "contains ''docs/'' (lower ''Create a new markdown file in docs/ from README.md'')"
    by code_simp
  from h have "detect_policy_violation ''Create a new markdown file in docs/ from README.md'' = None"
    by (intro detect_policy_violation_escape_hatch disjI1)
  with h a b show ?thesis by simp
qed

text \<open>The facts of C4, one by one.\<close>

lemma trim_pass_props:
  assumes "tot > CONTEXT_SOFT_LIMIT_TOKENS cfg"
  shows "removal_indices (trim_pass cfg tot msgs) =
           map fst (take (length (removal_indices (trim_pass cfg tot msgs))) (candidates msgs))"
    and "t_total (trim_pass cfg tot msgs) =
           tot - sum_list (map snd (take (length (removal_indices (trim_pass cfg tot msgs))) (candidates msgs)))"
    and "t_total (trim_pass cfg tot msgs) \<le> CONTEXT_SOFT_LIMIT_TOKENS cfg
         \<or> length (removal_indices (trim_pass cfg tot msgs)) = length (candidates msgs)"
    and "\<forall>j < length (removal_indices (trim_pass cfg tot msgs)).
           tot - sum_list (map snd (take j (candidates msgs))) > CONTEXT_SOFT_LIMIT_TOKENS cfg"
    and "\<forall>i \<in> set (removal_indices (trim_pass cfg tot msgs)).
           i < length msgs \<and> role (msgs ! i) \<noteq> ''system'' \<and> last_user_idx msgs \<noteq> Some i"
    and "t_messages (trim_pass cfg tot msgs) =
           nths msgs {i. i \<notin> set (removal_indices (trim_pass cfg tot msgs))}"
    and "\<forall>i < length msgs. role (msgs ! i) = ''system'' \<or> last_user_idx msgs = Some i
           \<longrightarrow> msgs ! i \<in> set (t_messages (trim_pass cfg tot msgs))"
proof -
  let ?soft = "CONTEXT_SOFT_LIMIT_TOKENS cfg"
  obtain r t where rt: "removal_loop ?soft tot (candidates msgs) = (r, t)"
    by (cases "removal_loop ?soft tot (candidates msgs)")
  from assms rt have ri: "removal_indices (trim_pass cfg tot msgs) = r"
    and tt: "t_total (trim_pass cfg tot msgs) = t"
    and tm: "t_messages (trim_pass cfg tot msgs) = (if r \<noteq> [] then remove_indices r msgs else msgs)"
    by (simp_all add: trim_pass_def)
  note p = removal_loop_prefix[OF rt]
  from p ri show "removal_indices (trim_pass cfg tot msgs) =
           map fst (take (length (removal_indices (trim_pass cfg tot msgs))) (candidates msgs))"
    by simp
  from p ri tt show "t_total (trim_pass cfg tot msgs) =
           tot - sum_list (map snd (take (length (removal_indices (trim_pass cfg tot msgs))) (candidates msgs)))"
    by simp
  from p ri tt show "t_total (trim_pass cfg tot msgs) \<le> ?soft
         \<or> length (removal_indices (trim_pass cfg tot msgs)) = length (candidates msgs)"
    by auto
  from p ri show "\<forall>j < length (removal_indices (trim_pass cfg tot msgs)).
           tot - sum_list (map snd (take j (candidates msgs))) > ?soft"
    by simp
  have sub: "set r \<subseteq> set (map fst (candidates msgs))"
  proof -
    from p have "r = map fst (take (length r) (candidates msgs))" by simp
    then have "set r = fst ` set (take (length r) (candidates msgs))" by (metis set_map)
    also have "\<dots> \<subseteq> fst ` set (candidates msgs)" by (intro image_mono set_take_subset)
    finally show ?thesis by simp
  qed
  then have cand: "\<forall>i \<in> set r. i < length msgs \<and> role (msgs ! i) \<noteq> ''system'' \<and> last_user_idx msgs \<noteq> Some i"
    unfolding candidates_indices by blast
  with ri show "\<forall>i \<in> set (removal_indices (trim_pass cfg tot msgs)).
           i < length msgs \<and> role (msgs ! i) \<noteq> ''system'' \<and> last_user_idx msgs \<noteq> Some i"
    by simp
  have nth: "t_messages (trim_pass cfg tot msgs) = nths msgs {i. i \<notin> set r}"
  proof (cases "r = []")
    case True
    with tm show ?thesis by (simp add: nths_all)
  next
    case False
    with tm show ?thesis by (simp add: remove_indices_nths)
  qed
  with ri show "t_messages (trim_pass cfg tot msgs) =
           nths msgs {i. i \<notin> set (removal_indices (trim_pass cfg tot msgs))}"
    by simp
  show "\<forall>i < length msgs. role (msgs ! i) = ''system'' \<or> last_user_idx msgs = Some i
           \<longrightarrow> msgs ! i \<in> set (t_messages (trim_pass cfg tot msgs))"
  proof (intro allI impI)
    fix i assume i: "i < length msgs"
      and keep: "role (msgs ! i) = ''system'' \<or> last_user_idx msgs = Some i"
    from keep cand have "i \<notin> set r" by blast
    with i show "msgs ! i \<in> set (t_messages (trim_pass cfg tot msgs))"
      unfolding nth set_nths by blast
  qed
qed

lemma last_user_idx_iff:
  "last_user_idx msgs = Some j \<longleftrightarrow>
     (j < length msgs \<and> role (msgs ! j) = ''user'' \<and>
      (\<forall>k. j < k \<and> k < length msgs \<longrightarrow> role (msgs ! k) \<noteq> ''user''))"
proof
  assume "last_user_idx msgs = Some j"
  then show "j < length msgs \<and> role (msgs ! j) = ''user'' \<and>
      (\<forall>k. j < k \<and> k < length msgs \<longrightarrow> role (msgs ! k) \<noteq> ''user'')"
    by (rule last_user_idx_Some)
next
  assume j: "j < length msgs \<and> role (msgs ! j) = ''user'' \<and>
      (\<forall>k. j < k \<and> k < length msgs \<longrightarrow> role (msgs ! k) \<noteq> ''user'')"
  then have "msgs ! j \<in> set msgs" by simp
  with j have "last_user_from 0 msgs \<noteq> None"
    unfolding last_user_from_None by blast
  then obtain j' where j': "last_user_idx msgs = Some j'"
    by (auto simp: last_user_idx_def)
  note s = last_user_idx_Some[OF j']
  have "j' = j"
  proof (rule ccontr)
    assume "j' \<noteq> j"
    then consider "j' < j" | "j < j'" by arith
    then show False
    proof cases
      case 1
      with s j show False by blast
    next
      case 2
      with s j show False by blast
    qed
  qed
  with j' show "last_user_idx msgs = Some j" by simp
qed

lemma enumerate_as_map: "enumerate 0 xs = map (\<lambda>i. (i, xs ! i)) [0..<length xs]"
  by (rule nth_equalityI) (simp_all add: nth_enumerate_eq)

lemma candidates_explicit:
  "map fst (candidates msgs) =
     filter (\<lambda>i. role (msgs ! i) \<noteq> ''system'' \<and>
                 \<not> (role (msgs ! i) = ''user'' \<and>
                    (\<forall>k. i < k \<and> k < length msgs \<longrightarrow> role (msgs ! k) \<noteq> ''user'')))
       [0..<length msgs]"
proof -
  have "map fst (candidates msgs) =
          map fst (filter (\<lambda>(i, m). role m \<noteq> ''system'' \<and> last_user_idx msgs \<noteq> Some i)
                     (enumerate 0 msgs))"
    by (simp add: candidates_def comp_def case_prod_beta)
  also have "\<dots> = filter (\<lambda>i. role (msgs ! i) \<noteq> ''system'' \<and> last_user_idx msgs \<noteq> Some i)
                      [0..<length msgs]"
    by (simp add: enumerate_as_map filter_map comp_def)
  also have "\<dots> = filter (\<lambda>i. role (msgs ! i) \<noteq> ''system'' \<and>
                 \<not> (role (msgs ! i) = ''user'' \<and>
                    (\<forall>k. i < k \<and> k < length msgs \<longrightarrow> role (msgs ! k) \<noteq> ''user'')))
       [0..<length msgs]"
    by (rule filter_cong) (auto simp: last_user_idx_iff)
  finally show ?thesis .
qed

lemma candidates_costs:
  "\<forall>p \<in> set (candidates msgs).
      fst p < length msgs \<and> snd p = estimate_tokens_from_text (normalize_message_text (msgs ! fst p))"
  by (auto simp: candidates_def in_set_enumerate_eq)

text \<open>
  C4. When the total handed to the trimming pass exceeds the soft limit, the pass removes a prefix
  of the candidate list. The candidates are the indices, in the order of the message list, of
  the messages that are neither of role \<^verbatim>\<open>system\<close> nor the last message of role \<^verbatim>\<open>user\<close> (the one
  with no \<^verbatim>\<open>user\<close> message after it), each with the estimate of its text. The pass goes on while
  the total is above the limit and stops as soon as the total is at most the limit or no
  candidate is left. No \<^verbatim>\<open>system\<close> message and not the last \<^verbatim>\<open>user\<close> message is removed; the list
  that is left holds exactly the messages at the indices not removed, in their order, so every
  \<^verbatim>\<open>system\<close> message and the last \<^verbatim>\<open>user\<close> message are still in it.
\<close>

theorem trim_pass_removes_candidates_in_order:
  assumes "tot > CONTEXT_SOFT_LIMIT_TOKENS cfg"
  shows "map fst (candidates msgs) =
           filter (\<lambda>i. role (msgs ! i) \<noteq> ''system'' \<and>
                       \<not> (role (msgs ! i) = ''user'' \<and>
                          (\<forall>k. i < k \<and> k < length msgs \<longrightarrow> role (msgs ! k) \<noteq> ''user'')))
             [0..<length msgs]
    \<and> (\<forall>p \<in> set (candidates msgs).
           snd p = estimate_tokens_from_text (normalize_message_text (msgs ! fst p)))
    \<and> removal_indices (trim_pass cfg tot msgs) =
           map fst (take (length (removal_indices (trim_pass cfg tot msgs))) (candidates msgs))
    \<and> t_total (trim_pass cfg tot msgs) =
           tot - sum_list (map snd (take (length (removal_indices (trim_pass cfg tot msgs))) (candidates msgs)))
    \<and> (t_total (trim_pass cfg tot msgs) \<le> CONTEXT_SOFT_LIMIT_TOKENS cfg
         \<or> length (removal_indices (trim_pass cfg tot msgs)) = length (candidates msgs))
    \<and> (\<forall>j < length (removal_indices (trim_pass cfg tot msgs)).
           tot - sum_list (map snd (take j (candidates msgs))) > CONTEXT_SOFT_LIMIT_TOKENS cfg)
    \<and> (\<forall>i \<in> set (removal_indices (trim_pass cfg tot msgs)).
           i < length msgs \<and> role (msgs ! i) \<noteq> ''system'' \<and>
           \<not> (role (msgs ! i) = ''user'' \<and>
              (\<forall>k. i < k \<and> k < length msgs \<longrightarrow> role (msgs ! k) \<noteq> ''user'')))
    \<and> t_messages (trim_pass cfg tot msgs) =
           nths msgs {i. i \<notin> set (removal_indices (trim_pass cfg tot msgs))}
    \<and> (\<forall>i < length msgs.
           role (msgs ! i) = ''system'' \<or>
           (role (msgs ! i) = ''user'' \<and>
              (\<forall>k. i < k \<and> k < length msgs \<longrightarrow> role (msgs ! k) \<noteq> ''user''))
           \<longrightarrow> i \<notin> set (removal_indices (trim_pass cfg tot msgs))
               \<and> msgs ! i \<in> set (t_messages (trim_pass cfg tot msgs)))"
proof -
  note p = trim_pass_props[OF assms, of msgs]
  have costs: "\<forall>p \<in> set (candidates msgs).
           snd p = estimate_tokens_from_text (normalize_message_text (msgs ! fst p))"
    using candidates_costs by blast
  have removed: "\<forall>i \<in> set (removal_indices (trim_pass cfg tot msgs)).
           i < length msgs \<and> role (msgs ! i) \<noteq> ''system'' \<and>
           \<not> (role (msgs ! i) = ''user'' \<and>
              (\<forall>k. i < k \<and> k < length msgs \<longrightarrow> role (msgs ! k) \<noteq> ''user''))"
    using p(5) by (auto simp: last_user_idx_iff)
  have kept: "\<forall>i < length msgs.
           role (msgs ! i) = ''system'' \<or>
           (role (msgs ! i) = ''user'' \<and>
              (\<forall>k. i < k \<and> k < length msgs \<longrightarrow> role (msgs ! k) \<noteq> ''user''))
           \<longrightarrow> i \<notin> set (removal_indices (trim_pass cfg tot msgs))
               \<and> msgs ! i \<in> set (t_messages (trim_pass cfg tot msgs))"
  proof (intro allI impI)
    fix i assume i: "i < length msgs"
      and k: "role (msgs ! i) = ''system'' \<or>
           (role (msgs ! i) = ''user'' \<and>
              (\<forall>k. i < k \<and> k < length msgs \<longrightarrow> role (msgs ! k) \<noteq> ''user''))"
    from k removed have "i \<notin> set (removal_indices (trim_pass cfg tot msgs))" by blast
    moreover from i k have "role (msgs ! i) = ''system'' \<or> last_user_idx msgs = Some i"
      by (auto simp: last_user_idx_iff)
    with p(7) i have "msgs ! i \<in> set (t_messages (trim_pass cfg tot msgs))" by blast
    ultimately show "i \<notin> set (removal_indices (trim_pass cfg tot msgs))
               \<and> msgs ! i \<in> set (t_messages (trim_pass cfg tot msgs))" by simp
  qed
  show ?thesis
    using candidates_explicit[of msgs] costs p(1) p(2) p(3) p(4) removed p(6) kept
    by (intro conjI)
qed

text \<open>
  Two runs with soft limit 10. From a total of 14 the candidates at 1 and 2 (2 tokens each) go
  and the candidate at 4 stays, because the total has reached 10. From a total of 30 the only
  candidate, the first user message, goes; the total is still 28, and the system message and
  the last user message stay although the limit is not met.
\<close>

theorem trim_pass_removes_candidates_in_order_witness:
  "(14::int) > CONTEXT_SOFT_LIMIT_TOKENS small_config
   \<and> removal_indices (trim_pass small_config 14
        [msg ''system'' ''ssssssss'', msg ''user'' ''aaaaaaaa'', msg ''assistant'' ''bbbbbbbb'',
         msg ''user'' ''cccc'', msg ''assistant'' ''dddd'']) = [1, 2]
   \<and> t_total (trim_pass small_config 14
        [msg ''system'' ''ssssssss'', msg ''user'' ''aaaaaaaa'', msg ''assistant'' ''bbbbbbbb'',
         msg ''user'' ''cccc'', msg ''assistant'' ''dddd'']) = 10
   \<and> t_messages (trim_pass small_config 14
        [msg ''system'' ''ssssssss'', msg ''user'' ''aaaaaaaa'', msg ''assistant'' ''bbbbbbbb'',
         msg ''user'' ''cccc'', msg ''assistant'' ''dddd''])
      = nths [msg ''system'' ''ssssssss'', msg ''user'' ''aaaaaaaa'', msg ''assistant'' ''bbbbbbbb'',
         msg ''user'' ''cccc'', msg ''assistant'' ''dddd''] {i. i \<notin> set [1, 2]}
   \<and> (30::int) > CONTEXT_SOFT_LIMIT_TOKENS small_config
   \<and> removal_indices (trim_pass small_config 30
        [msg ''user'' ''aaaaaaaa'', msg ''system'' ''ssssssss'', msg ''user'' ''please fix the bug'']) = [0]
   \<and> t_total (trim_pass small_config 30
        [msg ''user'' ''aaaaaaaa'', msg ''system'' ''ssssssss'', msg ''user'' ''please fix the bug'']) = 28
   \<and> t_messages (trim_pass small_config 30
        [msg ''user'' ''aaaaaaaa'', msg ''system'' ''ssssssss'', msg ''user'' ''please fix the bug''])
      = [msg ''system'' ''ssssssss'', msg ''user'' ''please fix the bug'']
   \<and> msg ''user'' ''please fix the bug'' \<in> set (t_messages (trim_pass small_config 30
        [msg ''user'' ''aaaaaaaa'', msg ''system'' ''ssssssss'', msg ''user'' ''please fix the bug'']))"
proof -
  let ?ms = "[msg ''system'' ''ssssssss'', msg ''user'' ''aaaaaaaa'', msg ''assistant'' ''bbbbbbbb'',
         msg ''user'' ''cccc'', msg ''assistant'' ''dddd'']"
  let ?ns = "[msg ''user'' ''aaaaaaaa'', msg ''system'' ''ssssssss'', msg ''user'' ''please fix the bug'']"
  have h: "(14::int) > CONTEXT_SOFT_LIMIT_TOKENS small_config"
    by (simp add: small_config_def)
  have r: "removal_indices (trim_pass small_config 14 ?ms) = [1, 2]"
    by code_simp
  have t: "t_total (trim_pass small_config 14 ?ms) = 10"
    by code_simp
  note th1 = trim_pass_removes_candidates_in_order[OF h, of ?ms]
  have "t_messages (trim_pass small_config 14 ?ms) =
          nths ?ms {i. i \<notin> set (removal_indices (trim_pass small_config 14 ?ms))}"
    by (rule th1[THEN conjunct2, THEN conjunct2, THEN conjunct2, THEN conjunct2, THEN conjunct2,
                 THEN conjunct2, THEN conjunct2, THEN conjunct1])
  with r have m: "t_messages (trim_pass small_config 14 ?ms) = nths ?ms {i. i \<notin> set [1, 2]}"
    by simp
  have h2: "(30::int) > CONTEXT_SOFT_LIMIT_TOKENS small_config"
    by (simp add: small_config_def)
  have r2: "removal_indices (trim_pass small_config 30 ?ns) = [0]"
    by code_simp
  have t2: "t_total (trim_pass small_config 30 ?ns) = 28"
    by code_simp
  have m2: "t_messages (trim_pass small_config 30 ?ns)
              = [msg ''system'' ''ssssssss'', msg ''user'' ''please fix the bug'']"
    by code_simp
  have role2: "role (?ns ! 2) = ''user''"
    by (simp add: msg_def)
  have last2: "\<forall>k. 2 < k \<and> k < length ?ns \<longrightarrow> role (?ns ! k) \<noteq> ''user''"
    by (simp add: msg_def)
  have len2: "2 < length ?ns"
    by simp
  have cond2: "role (?ns ! 2) = ''system'' \<or>
           (role (?ns ! 2) = ''user'' \<and>
              (\<forall>k. 2 < k \<and> k < length ?ns \<longrightarrow> role (?ns ! k) \<noteq> ''user''))"
    using role2 last2 by blast
  note th2 = trim_pass_removes_candidates_in_order[OF h2, of ?ns]
  note kept2 = th2[THEN conjunct2, THEN conjunct2, THEN conjunct2, THEN conjunct2, THEN conjunct2,
                   THEN conjunct2, THEN conjunct2, THEN conjunct2]
  have "?ns ! 2 \<in> set (t_messages (trim_pass small_config 30 ?ns))"
    using kept2[rule_format, OF len2 cond2] by (rule conjunct2)
  then have k2: "msg ''user'' ''please fix the bug'' \<in> set (t_messages (trim_pass small_config 30 ?ns))"
    by simp
  from h r t m h2 r2 t2 m2 k2 show ?thesis by (intro conjI)
qed

section \<open>Override commands\<close>

lemma cancel_pattern_needs_text: "rx_search CANCEL_OVERRIDE_PATTERN [] = None"
  by code_simp

lemma cancel_clears_entry:
  "fst (cancel_complexity_override store session_id) =
     (if session_ok session_id then store((the session_id) := None) else store)"
  by (auto simp: cancel_complexity_override_def split: option.splits)

lemma classify_with_haiku_overrides:
  "overrides (fst (classify_with_haiku cfg w st prompt)) = overrides st"
  by (simp add: classify_with_haiku_def Let_def split: prod.splits option.splits)

lemma classify_request_overrides:
  "overrides (fst (classify_request cfg w st md user_message)) =
     fst (get_complexity_override w
            (apply_override_command cfg w (overrides st) (extract_session_id md) user_message)
            (extract_session_id md))"
proof -
  have h: "overrides a = overrides s" if "classify_with_haiku cfg w s p = (a, b)" for a b s p
    using classify_with_haiku_overrides[of cfg w s p] that by simp
  show ?thesis
    by (auto simp: classify_request_def Let_def split: prod.splits dest: h)
qed

text \<open>
  C10. A user message that matches the cancel pattern and also a set pattern is parsed as the
  cancel command: the entry of the session is removed from the override store, nothing is
  written to the store, and the store is in that state when classification is done.
\<close>

theorem cancel_pattern_wins:
  assumes "rx_search CANCEL_OVERRIDE_PATTERN message \<noteq> None"
    and "rx_search OVERRIDE_PATTERN message \<noteq> None"
  shows "parse_override_command cfg message = Some Cancel
       \<and> apply_override_command cfg w store session_id (Some message) =
           (if session_ok session_id then store((the session_id) := None) else store)
       \<and> overrides (fst (classify_request cfg w st md (Some message))) =
           (if session_ok (extract_session_id md)
            then (overrides st)((the (extract_session_id md)) := None) else overrides st)"
proof -
  from assms(1) have ne: "message \<noteq> []"
    using cancel_pattern_needs_text by auto
  with assms(1) have p: "parse_override_command cfg message = Some Cancel"
    by (simp add: parse_override_command_def)
  have a: "apply_override_command cfg w s sid (Some message) =
             (if session_ok sid then s((the sid) := None) else s)" for s sid
    using ne p by (simp add: apply_override_command_def cancel_clears_entry)
  have "fst (get_complexity_override w (if session_ok sid then s((the sid) := None) else s) sid) =
          (if session_ok sid then s((the sid) := None) else s)" for s sid
    by (simp add: get_complexity_override_def)
  with a have "overrides (fst (classify_request cfg w st md (Some message))) =
           (if session_ok (extract_session_id md)
            then (overrides st)((the (extract_session_id md)) := None) else overrides st)"
    by (simp add: classify_request_overrides)
  with p a show ?thesis by simp
qed

text \<open>The message of the witness sets opus and cancels the override in one sentence.\<close>

theorem cancel_pattern_wins_witness:
  "rx_search CANCEL_OVERRIDE_PATTERN ''use opus and cancel the override'' \<noteq> None
   \<and> rx_search OVERRIDE_PATTERN ''use opus and cancel the override'' \<noteq> None
   \<and> parse_override_command small_config ''use opus and cancel the override'' = Some Cancel"
proof -
  have c: "rx_search CANCEL_OVERRIDE_PATTERN ''use opus and cancel the override'' \<noteq> None"
    by code_simp
  have s: "rx_search OVERRIDE_PATTERN ''use opus and cancel the override'' \<noteq> None"
    by code_simp
  from cancel_pattern_wins[OF c s, of small_config]
  have "parse_override_command small_config ''use opus and cancel the override'' = Some Cancel"
    by blast
  with c s show ?thesis by simp
qed

section \<open>What each stage leaves alone\<close>

lemma resolve_context_frame:
  "messages (snd (resolve_context cfg w st data)) = messages data"
  "model (snd (resolve_context cfg w st data)) = model data"
  "system (snd (resolve_context cfg w st data)) = system data"
  "response (snd (resolve_context cfg w st data)) = response data"
  "headers (snd (resolve_context cfg w st data)) = headers data"
  "lp_metadata (snd (resolve_context cfg w st data)) = lp_metadata data"
  "skip_llm_call (snd (resolve_context cfg w st data)) = skip_llm_call data"
  "do_not_route (snd (resolve_context cfg w st data)) = do_not_route data"
  by (simp_all add: resolve_context_def Let_def split: prod.splits option.splits)

lemma resolve_context_state:
  "overrides (fst (resolve_context cfg w st data)) = overrides st"
  "classification_cache (fst (resolve_context cfg w st data)) = classification_cache st"
  "contract_cache (fst (resolve_context cfg w st data)) = contract_cache st"
  "side_cache (fst (resolve_context cfg w st data)) = side_cache st"
  "classifier_calls (fst (resolve_context cfg w st data)) = classifier_calls st"
  "cache_lookups (fst (resolve_context cfg w st data)) = cache_lookups st"
  by (simp_all add: resolve_context_def Let_def split: prod.splits option.splits)

lemma guard_frame:
  "model (snd (apply_context_exhaustion_protection cfg data)) = model data"
  "system (snd (apply_context_exhaustion_protection cfg data)) = system data"
  "headers (snd (apply_context_exhaustion_protection cfg data)) = headers data"
  "lp_metadata (snd (apply_context_exhaustion_protection cfg data)) = lp_metadata data"
  by (simp_all add: apply_context_exhaustion_protection_def Let_def)

lemma guard_refuses:
  assumes "s_total (guard_scan cfg (messages data)) > CONTEXT_HARD_LIMIT_TOKENS cfg"
  shows "fst (apply_context_exhaustion_protection cfg data)"
    and "response (snd (apply_context_exhaustion_protection cfg data)) = Some context_exhaustion_response"
    and "skip_llm_call (snd (apply_context_exhaustion_protection cfg data))"
    and "do_not_route (snd (apply_context_exhaustion_protection cfg data))"
    and "metadata (snd (apply_context_exhaustion_protection cfg data)) ''exhaustion_risk''
           = Some (PStr ''fatal'')"
  using assms by (simp_all add: apply_context_exhaustion_protection_def Let_def)

lemma hook_unfold:
  "async_pre_call_hook cfg w st call_type data =
     (if fst (apply_context_exhaustion_protection cfg (snd (resolve_context cfg w st data)))
      then (fst (resolve_context cfg w st data),
            snd (apply_context_exhaustion_protection cfg (snd (resolve_context cfg w st data))))
      else after_guard cfg w (fst (resolve_context cfg w st data)) call_type
             (snd (apply_context_exhaustion_protection cfg (snd (resolve_context cfg w st data)))))"
  by (simp add: async_pre_call_hook_def Let_def case_prod_beta)

lemma hook_refused:
  assumes "fst (apply_context_exhaustion_protection cfg (snd (resolve_context cfg w st data)))"
  shows "async_pre_call_hook cfg w st call_type data =
           (fst (resolve_context cfg w st data),
            snd (apply_context_exhaustion_protection cfg (snd (resolve_context cfg w st data))))"
  using assms by (simp add: hook_unfold)

text \<open>
  C3. When the estimate of the context guard after trimming exceeds the hard limit, the guard
  attaches the synthetic refusal with finish reason \<^verbatim>\<open>context_exhaustion\<close>, stamps
  \<^verbatim>\<open>exhaustion_risk = fatal\<close> and sets both skip-upstream flags; the hook returns the request as the
  guard left it, with no later stage run, no model rewrite and no call to the classifier.
\<close>

theorem context_guard_fatal_refusal:
  assumes "s_total (guard_scan cfg (messages data)) > CONTEXT_HARD_LIMIT_TOKENS cfg"
  shows "async_pre_call_hook cfg w st call_type data =
           (fst (resolve_context cfg w st data),
            snd (apply_context_exhaustion_protection cfg (snd (resolve_context cfg w st data))))
       \<and> response (snd (async_pre_call_hook cfg w st call_type data)) = Some context_exhaustion_response
       \<and> finish_reason context_exhaustion_response = ''context_exhaustion''
       \<and> metadata (snd (async_pre_call_hook cfg w st call_type data)) ''exhaustion_risk''
            = Some (PStr ''fatal'')
       \<and> skip_llm_call (snd (async_pre_call_hook cfg w st call_type data))
       \<and> do_not_route (snd (async_pre_call_hook cfg w st call_type data))
       \<and> model (snd (async_pre_call_hook cfg w st call_type data)) = model data
       \<and> classifier_calls (fst (async_pre_call_hook cfg w st call_type data)) = classifier_calls st"
proof -
  let ?d1 = "snd (resolve_context cfg w st data)"
  from assms have h: "s_total (guard_scan cfg (messages ?d1)) > CONTEXT_HARD_LIMIT_TOKENS cfg"
    by (simp add: resolve_context_frame)
  note g = guard_refuses[OF h]
  note eq = hook_refused[OF g(1), of call_type]
  show ?thesis
    unfolding eq
    using g by (simp add: guard_frame resolve_context_frame resolve_context_state
        context_exhaustion_response_def)
qed

text \<open>
  Three system messages of 6 tokens each over an overhead of 4, with a hard limit of 12: nothing
  can be trimmed and the request is refused.
\<close>

theorem context_guard_fatal_refusal_witness:
  "s_total (guard_scan small_config
      (messages (request_of [msg ''system'' ''aaaaaaaaaaaaaaaaaaaaaaaa'',
                             msg ''system'' ''bbbbbbbbbbbbbbbbbbbbbbbb'',
                             msg ''system'' ''cccccccccccccccccccccccc''] [])))
     > CONTEXT_HARD_LIMIT_TOKENS small_config
   \<and> response (snd (async_pre_call_hook small_config example_world empty_state ''completion''
        (request_of [msg ''system'' ''aaaaaaaaaaaaaaaaaaaaaaaa'',
                     msg ''system'' ''bbbbbbbbbbbbbbbbbbbbbbbb'',
                     msg ''system'' ''cccccccccccccccccccccccc''] [])))
       = Some context_exhaustion_response
   \<and> skip_llm_call (snd (async_pre_call_hook small_config example_world empty_state ''completion''
        (request_of [msg ''system'' ''aaaaaaaaaaaaaaaaaaaaaaaa'',
                     msg ''system'' ''bbbbbbbbbbbbbbbbbbbbbbbb'',
                     msg ''system'' ''cccccccccccccccccccccccc''] [])))"
proof -
  let ?d = "request_of [msg ''system'' ''aaaaaaaaaaaaaaaaaaaaaaaa'',
                        msg ''system'' ''bbbbbbbbbbbbbbbbbbbbbbbb'',
                        msg ''system'' ''cccccccccccccccccccccccc''] []"
  have h: "s_total (guard_scan small_config (messages ?d)) > CONTEXT_HARD_LIMIT_TOKENS small_config"
    by code_simp
  from context_guard_fatal_refusal[OF h, of example_world empty_state "''completion''"] h
  show ?thesis by blast
qed

section \<open>Ledger reminder and alert\<close>







section \<open>Classification and routing\<close>

lemma classify_request_unfold:
  "classify_request cfg w st md user_message =
     (if (case snd (get_complexity_override w
                 (apply_override_command cfg w (overrides st) (extract_session_id md) user_message)
                 (extract_session_id md)) of None \<Rightarrow> False | Some c \<Rightarrow> c \<noteq> [])
      then (st\<lparr> overrides := fst (get_complexity_override w
                 (apply_override_command cfg w (overrides st) (extract_session_id md) user_message)
                 (extract_session_id md)) \<rparr>,
            \<lparr> classification = the (snd (get_complexity_override w
                 (apply_override_command cfg w (overrides st) (extract_session_id md) user_message)
                 (extract_session_id md))),
              override_applied = True,
              override_remaining_seconds = get_override_remaining_seconds w
                 (fst (get_complexity_override w
                    (apply_override_command cfg w (overrides st) (extract_session_id md) user_message)
                    (extract_session_id md))) (extract_session_id md) \<rparr>)
      else if (case user_message of None \<Rightarrow> True | Some um \<Rightarrow> um = [])
              \<or> length (strip (the user_message)) < 20
      then (st\<lparr> overrides := fst (get_complexity_override w
                 (apply_override_command cfg w (overrides st) (extract_session_id md) user_message)
                 (extract_session_id md)) \<rparr>,
            \<lparr> classification = ''SIMPLE'', override_applied = False,
              override_remaining_seconds = None \<rparr>)
      else (fst (classify_with_haiku cfg w
                   (st\<lparr> overrides := fst (get_complexity_override w
                      (apply_override_command cfg w (overrides st) (extract_session_id md) user_message)
                      (extract_session_id md)) \<rparr>) (the user_message)),
            \<lparr> classification = snd (classify_with_haiku cfg w
                   (st\<lparr> overrides := fst (get_complexity_override w
                      (apply_override_command cfg w (overrides st) (extract_session_id md) user_message)
                      (extract_session_id md)) \<rparr>) (the user_message)),
              override_applied = False, override_remaining_seconds = None \<rparr>))"
  by (simp add: classify_request_def Let_def case_prod_beta)

lemma classify_with_haiku_trace:
  "cache_lookups (fst (classify_with_haiku cfg w st prompt)) = Suc (cache_lookups st)"
  "classifier_calls (fst (classify_with_haiku cfg w st prompt)) =
     (if (case snd (cache_get cfg w (classification_cache st) prompt) of
            None \<Rightarrow> False | Some c \<Rightarrow> c \<noteq> [])
      then classifier_calls st else classifier_calls st @ [take 2000 prompt])"
  "(case snd (cache_get cfg w (classification_cache st) prompt) of
      None \<Rightarrow> False | Some c \<Rightarrow> c \<noteq> [])
   \<Longrightarrow> snd (classify_with_haiku cfg w st prompt) =
         the (snd (cache_get cfg w (classification_cache st) prompt))"
  by (simp_all add: classify_with_haiku_def Let_def case_prod_beta split: option.splits)

lemma route_stage_results:
  "model (snd (route_stage cfg w st data um k lr la)) =
     Some (selected_model (classification (snd (classify_request cfg w st (metadata data) um))))"
  "classifier_calls (fst (route_stage cfg w st data um k lr la)) =
     classifier_calls (fst (classify_request cfg w st (metadata data) um))"
  "cache_lookups (fst (route_stage cfg w st data um k lr la)) =
     cache_lookups (fst (classify_request cfg w st (metadata data) um))"
  "system (snd (route_stage cfg w st data um k lr la)) = system data"
  "messages (snd (route_stage cfg w st data um k lr la)) = messages data"
  "response (snd (route_stage cfg w st data um k lr la)) = response data"
  "contract_cache (fst (route_stage cfg w st data um k lr la)) =
     contract_cache (fst (classify_request cfg w st (metadata data) um))"
  by (simp_all add: route_stage_def Let_def case_prod_beta split: option.splits)

text \<open>
  C8, as the code has it. With no override active, the fast path is taken on the length of the
  last user message after \<^verbatim>\<open>strip()\<close>, which counts the whitespace inside the message: under 20
  the classification is SIMPLE, with no look-up in the cache and no classifier call; from 20 on
  the message goes to \<^verbatim>\<open>classify_with_haiku\<close>, which looks the cache up once and calls the
  classifier when the cache has no live entry.
\<close>

theorem fast_path_on_stripped_length:
  assumes "snd (get_complexity_override w
                  (apply_override_command cfg w (overrides st) (extract_session_id md) (Some um))
                  (extract_session_id md)) = None"
  shows "(length (strip um) < 20 \<longrightarrow>
            classification (snd (classify_request cfg w st md (Some um))) = ''SIMPLE''
          \<and> classifier_calls (fst (classify_request cfg w st md (Some um))) = classifier_calls st
          \<and> cache_lookups (fst (classify_request cfg w st md (Some um))) = cache_lookups st
          \<and> classification_cache (fst (classify_request cfg w st md (Some um))) = classification_cache st)
       \<and> (length (strip um) \<ge> 20 \<longrightarrow>
            classification (snd (classify_request cfg w st md (Some um))) =
              snd (classify_with_haiku cfg w
                     (st\<lparr> overrides := fst (get_complexity_override w
                        (apply_override_command cfg w (overrides st) (extract_session_id md) (Some um))
                        (extract_session_id md)) \<rparr>) um)
          \<and> cache_lookups (fst (classify_request cfg w st md (Some um))) = Suc (cache_lookups st)
          \<and> classifier_calls (fst (classify_request cfg w st md (Some um))) =
              (if (case snd (cache_get cfg w (classification_cache st) um) of
                     None \<Rightarrow> False | Some c \<Rightarrow> c \<noteq> [])
               then classifier_calls st else classifier_calls st @ [take 2000 um]))"
proof -
  have e: "um = [] \<Longrightarrow> length (strip um) < 20"
    by (simp add: strip_def)
  show ?thesis
    using assms e
    by (auto simp: classify_request_unfold classify_with_haiku_trace)
qed

text \<open>
  The boundary, with no session and so no override: 19 characters take the fast path, 20 go to
  the cache and the classifier.
\<close>

theorem fast_path_on_stripped_length_witness:
  "snd (get_complexity_override example_world
          (apply_override_command example_config example_world (overrides empty_state)
             (extract_session_id Map.empty) (Some ''abcdefghijklmnopqrs''))
          (extract_session_id Map.empty)) = None
   \<and> length (strip ''abcdefghijklmnopqrs'') < 20
   \<and> classification (snd (classify_request example_config example_world empty_state Map.empty
                             (Some ''abcdefghijklmnopqrs''))) = ''SIMPLE''
   \<and> classifier_calls (fst (classify_request example_config example_world empty_state Map.empty
                               (Some ''abcdefghijklmnopqrs''))) = classifier_calls empty_state
   \<and> cache_lookups (fst (classify_request example_config example_world empty_state Map.empty
                               (Some ''abcdefghijklmnopqrs''))) = cache_lookups empty_state
   \<and> snd (get_complexity_override example_world
          (apply_override_command example_config example_world (overrides empty_state)
             (extract_session_id Map.empty) (Some ''abcdefghijklmnopqrst''))
          (extract_session_id Map.empty)) = None
   \<and> length (strip ''abcdefghijklmnopqrst'') \<ge> 20
   \<and> cache_lookups (fst (classify_request example_config example_world empty_state Map.empty
                               (Some ''abcdefghijklmnopqrst''))) = Suc (cache_lookups empty_state)"
proof -
  have h19: "snd (get_complexity_override example_world
          (apply_override_command example_config example_world (overrides empty_state)
             (extract_session_id Map.empty) (Some ''abcdefghijklmnopqrs''))
          (extract_session_id Map.empty)) = None"
    by code_simp
  have l19: "length (strip ''abcdefghijklmnopqrs'') < 20"
    by code_simp
  have h20: "snd (get_complexity_override example_world
          (apply_override_command example_config example_world (overrides empty_state)
             (extract_session_id Map.empty) (Some ''abcdefghijklmnopqrst''))
          (extract_session_id Map.empty)) = None"
    by code_simp
  have l20: "length (strip ''abcdefghijklmnopqrst'') \<ge> 20"
    by code_simp
  note a = fast_path_on_stripped_length[OF h19, THEN conjunct1, rule_format, OF l19]
  note b = fast_path_on_stripped_length[OF h20, THEN conjunct2, rule_format, OF l20]
  from h19 l19 a h20 l20 b show ?thesis by (intro conjI) simp_all
qed

text \<open>
  The claim as the specification has it fails on a message of 11 characters that are not
  whitespace, with spaces between them: its stripped length is 21 and it goes to the classifier.
\<close>

theorem fast_path_counts_inner_whitespace_counterexample:
  "non_whitespace_count ''a b c d e f g h i j k'' = 11
   \<and> observe [''complexity_classification'']
       (async_pre_call_hook example_config example_world empty_state ''completion''
          (request_of [msg ''user'' ''a b c d e f g h i j k''] []))
     = \<lparr> seen_model = Some ''claude-sonnet-4-5'', seen_system_head = None,
         seen_finish_reason = None, seen_skip = False,
         seen_metadata = [Some (PStr ''MODERATE'')],
         seen_classifier_calls = [''a b c d e f g h i j k''], seen_cache_lookups = 1 \<rparr>"
  by code_simp

text \<open>
  C6, as the code has it. The override that counts is the one in the store once the command of
  the request's own last user message has been applied: a cancel command clears the entry of
  the session and a set command replaces it. When the session then has an entry that has not
  expired, the classification is the complexity stored in it and the model is rewritten to the
  model of that tier, with no look-up in the cache and no classifier call, whatever else the
  message says.
\<close>

theorem active_override_decides_route:
  assumes "extract_session_id (metadata data) = Some sid" and "sid \<noteq> []"
    and "apply_override_command cfg w (overrides st) (Some sid) user_message sid = Some ov"
    and "\<not> expires ov < now_get w" and "complexity ov \<noteq> []"
  shows "classification (snd (classify_request cfg w st (metadata data) user_message)) = complexity ov
       \<and> override_applied (snd (classify_request cfg w st (metadata data) user_message))
       \<and> model (snd (route_stage cfg w st data user_message k lr la))
           = Some (selected_model (complexity ov))
       \<and> classifier_calls (fst (route_stage cfg w st data user_message k lr la)) = classifier_calls st
       \<and> cache_lookups (fst (route_stage cfg w st data user_message k lr la)) = cache_lookups st"
proof -
  let ?store = "apply_override_command cfg w (overrides st) (Some sid) user_message"
  from assms(2,3,4) have g: "get_complexity_override w ?store (Some sid) = (?store, Some (complexity ov))"
    by (simp add: get_complexity_override_def session_ok_def)
  have c: "classify_request cfg w st (metadata data) user_message =
             (st\<lparr> overrides := ?store \<rparr>,
              \<lparr> classification = complexity ov, override_applied = True,
                override_remaining_seconds = get_override_remaining_seconds w ?store (Some sid) \<rparr>)"
    using assms(1,5) g by (simp add: classify_request_unfold)
  show ?thesis
    by (simp add: route_stage_results c)
qed

text \<open>
  Session abc holds an override to COMPLEX that expires at 5000; at 1001 a long message with no
  command in it is routed to the model of that tier.
\<close>

theorem active_override_decides_route_witness:
  "extract_session_id (metadata (session_request ''please explain the weather forecast in detail''))
     = Some ''abc''
   \<and> apply_override_command example_config example_world (overrides state_with_override)
        (Some ''abc'') (Some ''please explain the weather forecast in detail'') ''abc''
       = Some \<lparr> complexity = ''COMPLEX'', expires = 5000, created = 900, ttl_minutes = 60 \<rparr>
   \<and> \<not> (5000 < now_get example_world)
   \<and> selected_model ''COMPLEX'' = ''claude-opus-4-5''
   \<and> model (snd (route_stage example_config example_world state_with_override
                   (session_request ''please explain the weather forecast in detail'')
                   (Some ''please explain the weather forecast in detail'') None None None))
       = Some ''claude-opus-4-5''
   \<and> classifier_calls (fst (route_stage example_config example_world state_with_override
                   (session_request ''please explain the weather forecast in detail'')
                   (Some ''please explain the weather forecast in detail'') None None None))
       = classifier_calls state_with_override"
proof -
  let ?ov = "\<lparr> complexity = ''COMPLEX'', expires = 5000, created = 900, ttl_minutes = 60 \<rparr>"
  have s: "extract_session_id (metadata (session_request ''please explain the weather forecast in detail''))
     = Some ''abc''"
    by code_simp
  have ne: "''abc'' \<noteq> []" by simp
  have a: "apply_override_command example_config example_world (overrides state_with_override)
        (Some ''abc'') (Some ''please explain the weather forecast in detail'') ''abc'' = Some ?ov"
    by code_simp
  have e: "\<not> (5000 < now_get example_world)"
    by (simp add: example_world_def)
  then have e': "\<not> expires ?ov < now_get example_world" by simp
  have c: "complexity ?ov \<noteq> []" by simp
  have m: "selected_model ''COMPLEX'' = ''claude-opus-4-5''"
    by code_simp
  note th = active_override_decides_route[OF s ne a e' c, of None None None]
  from th have "model (snd (route_stage example_config example_world state_with_override
                   (session_request ''please explain the weather forecast in detail'')
                   (Some ''please explain the weather forecast in detail'') None None None))
       = Some (selected_model ''COMPLEX'')"
    by simp
  with m have r: "model (snd (route_stage example_config example_world state_with_override
                   (session_request ''please explain the weather forecast in detail'')
                   (Some ''please explain the weather forecast in detail'') None None None))
       = Some ''claude-opus-4-5''"
    by simp
  from th have t: "classifier_calls (fst (route_stage example_config example_world state_with_override
                   (session_request ''please explain the weather forecast in detail'')
                   (Some ''please explain the weather forecast in detail'') None None None))
       = classifier_calls state_with_override"
    by simp
  from s a e m r t show ?thesis by (intro conjI)
qed

text \<open>
  The claim as the specification has it fails when the message of the request cancels the
  override: session abc has a live override to COMPLEX on entry, and the request is classified
  SIMPLE and routed to the cheap model.
\<close>

theorem live_override_cancelled_by_message_counterexample:
  "overrides state_with_override ''abc''
     = Some \<lparr> complexity = ''COMPLEX'', expires = 5000, created = 900, ttl_minutes = 60 \<rparr>
   \<and> \<not> (5000 < now_get example_world)
   \<and> selected_model ''COMPLEX'' = ''claude-opus-4-5''
   \<and> observe [''complexity_classification'', ''complexity_override_active'']
       (async_pre_call_hook example_config example_world state_with_override ''completion''
          (session_request ''cancel override''))
     = \<lparr> seen_model = Some ''claude-haiku-4-5'', seen_system_head = None,
         seen_finish_reason = None, seen_skip = False,
         seen_metadata = [Some (PStr ''SIMPLE''), Some (PStr ''false'')],
         seen_classifier_calls = [], seen_cache_lookups = 0 \<rparr>"
  by code_simp

section \<open>Policy stage\<close>

lemma get_repo_root_value:
  "snd (get_repo_root_from_request w data) =
     (case metadata data ''repo_root'' of
        Some (PStr p) \<Rightarrow> (if p \<noteq> [] then resolve_path w p else None)
      | _ \<Rightarrow> None)"
  by (simp add: get_repo_root_from_request_def Let_def)

lemma classify_with_haiku_frame:
  "contract_cache (fst (classify_with_haiku cfg w st prompt)) = contract_cache st"
  "side_cache (fst (classify_with_haiku cfg w st prompt)) = side_cache st"
  "session_repo_cache (fst (classify_with_haiku cfg w st prompt)) = session_repo_cache st"
  by (simp_all add: classify_with_haiku_def Let_def case_prod_beta split: option.splits)

lemma classify_request_frame:
  "contract_cache (fst (classify_request cfg w st md um)) = contract_cache st"
  by (simp add: classify_request_unfold classify_with_haiku_frame)

lemma policy_stage_unscoped:
  "policy_stage cfg w st data None um rm lr la = route_stage cfg w st data um None lr la"
  by (simp add: policy_stage_def)

lemma policy_stage_scoped:
  "policy_stage cfg w st data (Some rt) um rm lr la =
     (case (case um of None \<Rightarrow> None | Some u \<Rightarrow> (if u = [] then None else detect_policy_violation u)) of
        Some reason \<Rightarrow>
          (st\<lparr> contract_cache := fst (get_policy_contract cfg w (contract_cache st) rt) \<rparr>,
           refuse_policy_violation (data\<lparr> metadata := (metadata data)(''repo_root'' \<mapsto> PStr rt) \<rparr>)
             (snd (get_policy_contract cfg w (contract_cache st) rt)) reason rm)
      | None \<Rightarrow>
          route_stage cfg w (st\<lparr> contract_cache := fst (get_policy_contract cfg w (contract_cache st) rt) \<rparr>)
            (if hash (snd (get_policy_contract cfg w (contract_cache st) rt)) \<noteq> []
             then inject_enforcement (data\<lparr> metadata := (metadata data)(''repo_root'' \<mapsto> PStr rt) \<rparr>)
                    (snd (get_policy_contract cfg w (contract_cache st) rt)) lr
             else data\<lparr> metadata := (metadata data)(''repo_root'' \<mapsto> PStr rt) \<rparr>)
            um (Some (snd (get_policy_contract cfg w (contract_cache st) rt))) lr la)"
  by (simp add: policy_stage_def Let_def case_prod_beta)

lemma get_policy_contract_loaded:
  "fst (get_policy_contract cfg w cache rt) rt = Some (snd (get_policy_contract cfg w cache rt))"
  by (simp add: get_policy_contract_def Let_def split: option.splits)

text \<open>
  C5, as the code has it. The gate is the repository root alone. The root that
  \<^verbatim>\<open>get_repo_root_from_request\<close> returns depends only on \<^verbatim>\<open>repo_root\<close> in the metadata (a non-empty
  string that resolves as a path), not on \<^verbatim>\<open>repo\<close>. Without a root the policy stage only routes:
  no contract is loaded, the system field and the messages are left alone and no refusal is
  attached. With a root the contract is loaded into the cache, a violation in the last user
  message is refused, and otherwise the enforcement message is injected (when the hash is not
  empty).
\<close>

theorem policy_gated_on_repo_root:
  "snd (get_repo_root_from_request w data) =
     (case metadata data ''repo_root'' of
        Some (PStr p) \<Rightarrow> (if p \<noteq> [] then resolve_path w p else None)
      | _ \<Rightarrow> None)
   \<and> contract_cache (fst (policy_stage cfg w st data None um rm lr la)) = contract_cache st
   \<and> system (snd (policy_stage cfg w st data None um rm lr la)) = system data
   \<and> messages (snd (policy_stage cfg w st data None um rm lr la)) = messages data
   \<and> response (snd (policy_stage cfg w st data None um rm lr la)) = response data
   \<and> contract_cache (fst (policy_stage cfg w st data (Some rt) um rm lr la)) rt
        = Some (snd (get_policy_contract cfg w (contract_cache st) rt))
   \<and> (\<forall>u reason. um = Some u \<and> u \<noteq> [] \<and> detect_policy_violation u = Some reason \<longrightarrow>
         response (snd (policy_stage cfg w st data (Some rt) um rm lr la))
           = Some (policy_violation_response
                     (hash (snd (get_policy_contract cfg w (contract_cache st) rt))) reason))
   \<and> ((case um of None \<Rightarrow> None | Some u \<Rightarrow> (if u = [] then None else detect_policy_violation u)) = None
        \<and> hash (snd (get_policy_contract cfg w (contract_cache st) rt)) \<noteq> [] \<longrightarrow>
         system (snd (policy_stage cfg w st data (Some rt) um rm lr la))
           = system (inject_enforcement (data\<lparr> metadata := (metadata data)(''repo_root'' \<mapsto> PStr rt) \<rparr>)
                       (snd (get_policy_contract cfg w (contract_cache st) rt)) lr))"
proof -
  have 1: "contract_cache (fst (policy_stage cfg w st data None um rm lr la)) = contract_cache st"
    by (simp add: policy_stage_unscoped route_stage_results classify_request_frame)
  have 2: "system (snd (policy_stage cfg w st data None um rm lr la)) = system data"
    "messages (snd (policy_stage cfg w st data None um rm lr la)) = messages data"
    "response (snd (policy_stage cfg w st data None um rm lr la)) = response data"
    by (simp_all add: policy_stage_unscoped route_stage_results)
  have 3: "contract_cache (fst (policy_stage cfg w st data (Some rt) um rm lr la)) rt
        = Some (snd (get_policy_contract cfg w (contract_cache st) rt))"
    by (simp add: policy_stage_scoped route_stage_results classify_request_frame
        get_policy_contract_loaded split: option.splits)
  have 4: "\<forall>u reason. um = Some u \<and> u \<noteq> [] \<and> detect_policy_violation u = Some reason \<longrightarrow>
         response (snd (policy_stage cfg w st data (Some rt) um rm lr la))
           = Some (policy_violation_response
                     (hash (snd (get_policy_contract cfg w (contract_cache st) rt))) reason)"
    by (auto simp: policy_stage_scoped refuse_policy_violation_def)
  have 5: "(case um of None \<Rightarrow> None | Some u \<Rightarrow> (if u = [] then None else detect_policy_violation u)) = None
        \<and> hash (snd (get_policy_contract cfg w (contract_cache st) rt)) \<noteq> [] \<longrightarrow>
         system (snd (policy_stage cfg w st data (Some rt) um rm lr la))
           = system (inject_enforcement (data\<lparr> metadata := (metadata data)(''repo_root'' \<mapsto> PStr rt) \<rparr>)
                       (snd (get_policy_contract cfg w (contract_cache st) rt)) lr)"
    by (simp add: policy_stage_scoped route_stage_results)
  from get_repo_root_value[of w data] 1 2 3 4 5 show ?thesis by (intro conjI)
qed

text \<open>
  With the root /tmp/acme and no repository name: a request for a new markdown file is refused,
  and a question about the weather gets the enforcement message.
\<close>

theorem policy_gated_on_repo_root_witness:
  "detect_policy_violation ''please create a new markdown file under docs/design/''
     = Some ''Request explicitly asks to create new markdown''
   \<and> response (snd (policy_stage example_config example_world empty_state root_only_request
                      (Some ''/tmp/acme'')
                      (Some ''please create a new markdown file under docs/design/'') ''X'' None None))
       = Some (policy_violation_response
                 (hash (snd (get_policy_contract example_config example_world
                               (contract_cache empty_state) ''/tmp/acme'')))
                 ''Request explicitly asks to create new markdown'')
   \<and> detect_policy_violation ''please tell me everything about the weather'' = None
   \<and> hash (snd (get_policy_contract example_config example_world (contract_cache empty_state)
                   ''/tmp/acme'')) \<noteq> []
   \<and> system (snd (policy_stage example_config example_world empty_state root_only_request
                    (Some ''/tmp/acme'')
                    (Some ''please tell me everything about the weather'') ''X'' None None))
       = system (inject_enforcement
                   (root_only_request\<lparr> metadata :=
                      (metadata root_only_request)(''repo_root'' \<mapsto> PStr ''/tmp/acme'') \<rparr>)
                   (snd (get_policy_contract example_config example_world
                           (contract_cache empty_state) ''/tmp/acme'')) None)"
proof -
  have v: "detect_policy_violation ''please create a new markdown file under docs/design/''
     = Some ''Request explicitly asks to create new markdown''"
    by code_simp
  have n: "detect_policy_violation ''please tell me everything about the weather'' = None"
    by code_simp
  have h: "hash (snd (get_policy_contract example_config example_world (contract_cache empty_state)
                   ''/tmp/acme'')) \<noteq> []"
    by code_simp
  have ne: "''please create a new markdown file under docs/design/'' \<noteq> []"
    by simp
  note a = policy_gated_on_repo_root[of example_world root_only_request example_config empty_state
      "Some ''please create a new markdown file under docs/design/''" "''X''" None None "''/tmp/acme''",
      THEN conjunct2, THEN conjunct2, THEN conjunct2, THEN conjunct2, THEN conjunct2, THEN conjunct2,
      THEN conjunct1, rule_format, OF conjI[OF refl conjI[OF ne v]]]
  have c: "(case Some ''please tell me everything about the weather'' of
              None \<Rightarrow> None
            | Some u \<Rightarrow> (if u = [] then None else detect_policy_violation u)) = None"
    using n by simp
  note b = policy_gated_on_repo_root[of example_world root_only_request example_config empty_state
      "Some ''please tell me everything about the weather''" "''X''" None None "''/tmp/acme''",
      THEN conjunct2, THEN conjunct2, THEN conjunct2, THEN conjunct2, THEN conjunct2, THEN conjunct2,
      THEN conjunct2, rule_format, OF conjI[OF c h]]
  from v a n h b show ?thesis by (intro conjI)
qed

text \<open>
  The claim as the specification has it fails on a request whose repository root resolves while
  its repository name does not: the contract is loaded and the enforcement message is injected.
\<close>

theorem policy_runs_without_repo_name_counterexample:
  "resolved_metadata example_world root_only_request ''repo'' = None
   \<and> observe [''policy_enforced'', ''contract_hash'', ''repo'']
       (async_pre_call_hook example_config example_world empty_state ''completion'' root_only_request)
     = \<lparr> seen_model = Some ''claude-sonnet-4-5'',
         seen_system_head = Some ''You are operating under a runtime-enforc'',
         seen_finish_reason = None, seen_skip = False,
         seen_metadata = [Some (PStr ''true''), Some (PStr ''# Policy Contrac''),
                          Some (PStr ''unscoped'')],
         seen_classifier_calls = [''please tell me everything about the weather''],
         seen_cache_lookups = 1 \<rparr>"
  by code_simp

section \<open>After the guard\<close>






end
